theory Spec2Isabelle
  imports Main
begin

section \<open>The logs SSE gateway (logs-sse-gateway/server/logs-gateway.js)\<close>

text \<open>
  A shallow embedding of the class \<open>LogsSSEGateway\<close>: the two request handlers
  \<open>handleLogsSSE\<close> and \<open>handleLogsPublish\<close>, the fan-out \<open>broadcastLog\<close>, the filters
  \<open>getUserLogChannels\<close> and \<open>validateLogPublisher\<close>, and \<open>removeConnection\<close>.
  State is passed explicitly: a handler takes the gateway and returns the gateway it leaves
  behind. The clock (\<open>Date.now()\<close>) and the random source (\<open>Math.random()\<close>) are an
  oracle carried in the state and read in the order the source reads them. The health and
  statistics endpoints only read the registry and are left out; the test endpoint is a call
  of \<open>broadcastLog\<close>; a heartbeat only writes to one connection's stream.
\<close>

subsection \<open>JavaScript values\<close>

text \<open>
  A header value, a query value and a field of the JSON body is a string or \<open>undefined\<close>:
  \<open>string option\<close>, with \<open>None\<close> for \<open>undefined\<close>. The model covers bodies whose
  \<open>service\<close>, \<open>workspace_id\<close>, \<open>workflow_id\<close> and \<open>function_id\<close> are strings or absent.
\<close>

definition truthy :: "string option \<Rightarrow> bool" where
  "truthy v = (case v of None \<Rightarrow> False | Some s \<Rightarrow> s \<noteq> [])"

text \<open>The conversion a template literal applies to an interpolated value.\<close>

definition template :: "string option \<Rightarrow> string" where
  "template v = (case v of None \<Rightarrow> ''undefined'' | Some s \<Rightarrow> s)"

text \<open>
  The result of a property read on an object literal: the value of an own property, a
  member inherited from \<open>Object.prototype\<close> (a function or an object, never a string), or
  \<open>undefined\<close>.
\<close>

datatype jsval = Undefined | Str string | Inherited string

definition js_field :: "string option \<Rightarrow> jsval" where
  "js_field v = (case v of None \<Rightarrow> Undefined | Some s \<Rightarrow> Str s)"

definition object_prototype_keys :: "string list" where
  "object_prototype_keys =
     [''constructor'', ''__defineGetter__'', ''__defineSetter__'', ''hasOwnProperty'',
      ''__lookupGetter__'', ''__lookupSetter__'', ''isPrototypeOf'', ''propertyIsEnumerable'',
      ''toString'', ''valueOf'', ''__proto__'', ''toLocaleString'']"

text \<open>\<open>obj[key]\<close> on an object literal with the own properties \<open>props\<close>; the key is
  converted to a string first, so \<open>undefined\<close> reads the property named \<open>undefined\<close>.\<close>

definition js_get :: "(string \<times> jsval) list \<Rightarrow> string option \<Rightarrow> jsval" where
  "js_get props key =
     (let k = template key in
      case map_of props k of
        Some v \<Rightarrow> v
      | None \<Rightarrow> if k \<in> set object_prototype_keys then Inherited k else Undefined)"

text \<open>\<open>String.prototype.split\<close> with a one-character separator: the result is never empty.\<close>

fun js_split :: "char \<Rightarrow> string \<Rightarrow> string list" where
  "js_split sep [] = [[]]"
| "js_split sep (c # cs) =
     (if c = sep then [] # js_split sep cs
      else (case js_split sep cs of [] \<Rightarrow> [[c]] | w # ws \<Rightarrow> (c # w) # ws))"

text \<open>Array destructuring: a position beyond the array is \<open>undefined\<close>.\<close>

definition nth_opt :: "'a list \<Rightarrow> nat \<Rightarrow> 'a option" where
  "nth_opt xs i = (if i < length xs then Some (xs ! i) else None)"

text \<open>A \<open>Set\<close> of strings, kept as the list of its members in insertion order.\<close>

definition set_add :: "string \<Rightarrow> string list \<Rightarrow> string list" where
  "set_add x xs = (if x \<in> set xs then xs else xs @ [x])"

definition set_delete :: "string \<Rightarrow> string list \<Rightarrow> string list" where
  "set_delete x xs = removeAll x xs"

subsection \<open>JSON values and \<open>JSON.stringify\<close>\<close>

text \<open>
  Numbers are integers (the gateway's own numbers are millisecond timestamps and counts);
  fractional numbers in a payload are outside the model.
\<close>

datatype json =
    JNull
  | JBool bool
  | JNum int
  | JStr string
  | JArr "json list"
  | JObj "(string \<times> json) list"

fun digits10 :: "nat \<Rightarrow> string" where
  "digits10 n =
     (if n < 10 then [''0123456789'' ! n]
      else digits10 (n div 10) @ [''0123456789'' ! (n mod 10)])"

declare digits10.simps [simp del]

definition number_string :: "int \<Rightarrow> string" where
  "number_string i = (if i < 0 then CHR ''-'' # digits10 (nat (- i)) else digits10 (nat i))"

definition hex_digit :: "nat \<Rightarrow> char" where
  "hex_digit d = ''0123456789abcdef'' ! (d mod 16)"

text \<open>The escapes of \<open>JSON.stringify\<close> on a string: the quote, the backslash, the five
  short escapes and \<open>\u00XX\<close> for every other control character.\<close>

definition quote_char :: "char \<Rightarrow> string" where
  "quote_char c =
     (if c = CHR 0x22 then [CHR 0x5C, CHR 0x22]
      else if c = CHR 0x5C then [CHR 0x5C, CHR 0x5C]
      else if c = CHR 0x08 then [CHR 0x5C, CHR ''b'']
      else if c = CHR 0x0C then [CHR 0x5C, CHR ''f'']
      else if c = CHR 0x0A then [CHR 0x5C, CHR ''n'']
      else if c = CHR 0x0D then [CHR 0x5C, CHR ''r'']
      else if c = CHR 0x09 then [CHR 0x5C, CHR ''t'']
      else if (of_char c :: nat) < 32 then
        [CHR 0x5C, CHR ''u'', CHR ''0'', CHR ''0'',
         hex_digit ((of_char c :: nat) div 16), hex_digit (of_char c)]
      else [c])"

definition quote_string :: "string \<Rightarrow> string" where
  "quote_string s = CHR 0x22 # concat (map quote_char s) @ [CHR 0x22]"

fun join :: "string \<Rightarrow> string list \<Rightarrow> string" where
  "join sep [] = []"
| "join sep [x] = x"
| "join sep (x # y # ys) = x @ sep @ join sep (y # ys)"

fun JSON_stringify :: "json \<Rightarrow> string" where
  "JSON_stringify JNull = ''null''"
| "JSON_stringify (JBool b) = (if b then ''true'' else ''false'')"
| "JSON_stringify (JNum i) = number_string i"
| "JSON_stringify (JStr s) = quote_string s"
| "JSON_stringify (JArr xs) = ''['' @ join '','' (map JSON_stringify xs) @ '']''"
| "JSON_stringify (JObj kvs) =
     ''{'' @ join '','' (map (\<lambda>(k, v). quote_string k @ '':'' @ JSON_stringify v) kvs) @ ''}''"

text \<open>An object literal some of whose property values may be \<open>undefined\<close>, as
  \<open>JSON.stringify\<close> sees it: a property whose value is \<open>undefined\<close> is left out.\<close>

definition object_literal :: "(string \<times> json option) list \<Rightarrow> json" where
  "object_literal props =
     JObj (concat (map (\<lambda>(k, v). case v of None \<Rightarrow> [] | Some j \<Rightarrow> [(k, j)]) props))"

subsection \<open>The clock and the random source\<close>

text \<open>
  \<open>clock w n\<close> is what the \<open>n\<close>-th call of \<open>Date.now()\<close> returns; \<open>entropy w n\<close> is the
  list of base-36 digits after the point of the \<open>n\<close>-th \<open>Math.random()\<close> (empty when
  the number is 0).
\<close>

record world =
  clock :: "nat \<Rightarrow> int"
  clockReads :: nat
  entropy :: "nat \<Rightarrow> nat list"
  randomReads :: nat

definition Date_now :: "world \<Rightarrow> int \<times> world" where
  "Date_now w = (clock w (clockReads w), w\<lparr>clockReads := Suc (clockReads w)\<rparr>)"

definition base36_digit :: "nat \<Rightarrow> char" where
  "base36_digit d = ''0123456789abcdefghijklmnopqrstuvwxyz'' ! (d mod 36)"

text \<open>\<open>Math.random().toString(36).substr(2, 9)\<close>: at most nine digits after \<open>0.\<close>\<close>

definition random_suffix :: "world \<Rightarrow> string \<times> world" where
  "random_suffix w =
     (take 9 (map base36_digit (entropy w (randomReads w))),
      w\<lparr>randomReads := Suc (randomReads w)\<rparr>)"

subsection \<open>The registry\<close>

text \<open>
  The response object of a subscriber: the status and headers of \<open>writeHead\<close>, the chunks
  handed to \<open>res.write\<close> so far, in order (the gateway never looks at how many of them
  the socket has drained), and whether \<open>res.write\<close> raises on this stream.
\<close>

record response =
  statusCode :: nat
  headers :: "(string \<times> string) list"
  chunks :: "string list"
  writeThrows :: bool

definition res_write :: "response \<Rightarrow> string \<Rightarrow> response option" where
  "res_write r s = (if writeThrows r then None else Some (r\<lparr>chunks := chunks r @ [s]\<rparr>))"

record connection =
  res :: response
  userId :: string
  connectionId :: string
  channels :: "string list"
  connectedAt :: int
  logsSent :: nat

record stats =
  totalConnections :: nat
  logsPublished :: nat
  startTime :: int

text \<open>\<open>connections\<close> is the \<open>Map\<close> from connection id to connection, \<open>logChannels\<close> the
  \<open>Map\<close> from channel to the \<open>Set\<close> of connection ids.\<close>

record gateway =
  connections :: "string \<rightharpoonup> connection"
  logChannels :: "string \<rightharpoonup> string list"
  stats :: stats
  world :: world

text \<open>The constructor.\<close>

definition new_gateway :: "world \<Rightarrow> gateway" where
  "new_gateway w =
     (let (t, w1) = Date_now w in
      \<lparr>connections = Map.empty, logChannels = Map.empty,
       stats = \<lparr>totalConnections = 0, logsPublished = 0, startTime = t\<rparr>,
       world = w1\<rparr>)"

subsection \<open>\<open>removeConnection\<close>\<close>

definition unsubscribe :: "string \<Rightarrow> (string \<rightharpoonup> string list) \<Rightarrow> string \<Rightarrow> (string \<rightharpoonup> string list)" where
  "unsubscribe cid lc channel =
     (case lc channel of
        None \<Rightarrow> lc
      | Some channelSubscribers \<Rightarrow>
          (let remaining = set_delete cid channelSubscribers in
           if length remaining = 0 then lc(channel := None) else lc(channel \<mapsto> remaining)))"

definition removeConnection :: "string \<Rightarrow> gateway \<Rightarrow> gateway" where
  "removeConnection cid g =
     (case connections g cid of
        None \<Rightarrow> g
      | Some conn \<Rightarrow>
          g\<lparr>logChannels := foldl (unsubscribe cid) (logChannels g) (channels conn),
            connections := (connections g)(cid := None)\<rparr>)"

subsection \<open>\<open>validateLogPublisher\<close>\<close>

definition validateLogPublisher :: "string option \<Rightarrow> string option \<Rightarrow> bool" where
  "validateLogPublisher token service =
     (let validTokens =
        [(''l5-etl-token'', Str ''etl''),
         (''faas-token'', Str ''faas''),
         (''function-token'', Str ''function''),
         (''service-token'', js_field service)]
      in js_get validTokens token = js_field service)"

subsection \<open>\<open>getUserLogChannels\<close>\<close>

record user =
  user_id :: string
  workspace_ids :: "string list"
  permissions :: "string list"

text \<open>The authentication middleware: every request gets the same two workspaces.\<close>

definition mock_user :: "string option \<Rightarrow> user" where
  "mock_user x_user_id =
     \<lparr>user_id = (if truthy x_user_id then template x_user_id else ''user123''),
      workspace_ids = [''workspace123'', ''workspace456''],
      permissions = [''logs.read'']\<rparr>"

definition channel_allowed :: "user \<Rightarrow> string \<Rightarrow> bool" where
  "channel_allowed u channel =
     (let parts = js_split CHR '':'' channel;
          ty = nth_opt parts 0;
          workspaceId = nth_opt parts 2
      in ty = Some ''logs'' \<and>
         (case workspaceId of None \<Rightarrow> False | Some w \<Rightarrow> w \<in> set (workspace_ids u)))"

definition getUserLogChannels :: "user \<Rightarrow> string list \<Rightarrow> string list" where
  "getUserLogChannels u requestedChannels =
     foldl (\<lambda>allowedChannels channel.
              if channel_allowed u channel then allowedChannels @ [channel]
              else allowedChannels)
       [] requestedChannels"

subsection \<open>\<open>broadcastLog\<close>\<close>

text \<open>The record written for one envelope: \<open>id: <id>\<close>, \<open>data: <JSON>\<close>, a blank line.\<close>

definition logMessage :: "string \<Rightarrow> json option \<Rightarrow> int \<Rightarrow> string \<Rightarrow> json" where
  "logMessage channel logData ts ident =
     object_literal
       [(''channel'', Some (JStr channel)),
        (''data'', logData),
        (''timestamp'', Some (JNum ts)),
        (''id'', Some (JStr ident))]"

definition data_record :: "string \<Rightarrow> json option \<Rightarrow> int \<Rightarrow> string \<Rightarrow> string" where
  "data_record channel logData ts ident =
     ''id: '' @ ident @ [CHR 0x0A] @ ''data: '' @
     JSON_stringify (logMessage channel logData ts ident) @ [CHR 0x0A, CHR 0x0A]"

text \<open>The two stamps of an envelope, in the order the object literal evaluates them:
  \<open>timestamp: Date.now()\<close>, then \<open>id: `log-${Date.now()}-${Math.random()...}`\<close>.\<close>

definition envelope_stamp :: "world \<Rightarrow> (int \<times> string) \<times> world" where
  "envelope_stamp w =
     (let (ts, w1) = Date_now w;
          (t2, w2) = Date_now w1;
          (r, w3) = random_suffix w2
      in ((ts, ''log-'' @ number_string t2 @ ''-'' @ r), w3))"

text \<open>The body of the \<open>forEach\<close> over the subscribers: the count of deliveries and the
  gateway are the loop's state.\<close>

definition deliver :: "string \<Rightarrow> json option \<Rightarrow> string \<Rightarrow> nat \<times> gateway \<Rightarrow> nat \<times> gateway" where
  "deliver channel logData cid acc =
     (let (delivered, g) = acc in
      case connections g cid of
        None \<Rightarrow> (delivered, g)
      | Some conn \<Rightarrow>
          (let ((ts, ident), w3) = envelope_stamp (world g);
               g1 = g\<lparr>world := w3\<rparr>
           in case res_write (res conn) (data_record channel logData ts ident) of
                Some res1 \<Rightarrow>
                  (delivered + 1,
                   g1\<lparr>connections :=
                        (connections g1)(cid \<mapsto> conn\<lparr>res := res1, logsSent := logsSent conn + 1\<rparr>)\<rparr>)
              | None \<Rightarrow> (delivered, removeConnection cid g1)))"

text \<open>
  The loop visits the members of the channel's \<open>Set\<close> in insertion order. The only
  member the loop body can delete from that \<open>Set\<close> is the one being visited, so the
  loop is a fold over the members found at its start.
\<close>

definition broadcastLog :: "string \<Rightarrow> json option \<Rightarrow> gateway \<Rightarrow> nat \<times> gateway" where
  "broadcastLog channel logData g =
     (let subscribers = (case logChannels g channel of None \<Rightarrow> [] | Some s \<Rightarrow> s)
      in fold (deliver channel logData) subscribers (0, g))"

subsection \<open>\<open>handleLogsPublish\<close>\<close>

record publish_body =
  service :: "string option"
  workspace_id :: "string option"
  workflow_id :: "string option"
  function_id :: "string option"
  logData :: "json option"

record publish_request =
  x_service_token :: "string option"
  body :: publish_body

record http_reply =
  status :: nat
  reply :: json

definition publishChannel :: "publish_body \<Rightarrow> string" where
  "publishChannel b =
     (if truthy (function_id b) then
        ''logs:function:'' @ template (workspace_id b) @ '':'' @ template (function_id b)
      else if truthy (workflow_id b) then
        ''logs:'' @ template (service b) @ '':'' @ template (workspace_id b) @ '':'' @
        template (workflow_id b)
      else ''logs:'' @ template (service b) @ '':'' @ template (workspace_id b))"

definition handleLogsPublish :: "publish_request \<Rightarrow> gateway \<Rightarrow> http_reply \<times> gateway" where
  "handleLogsPublish req g =
     (let b = body req in
      if \<not> validateLogPublisher (x_service_token req) (service b) then
        (\<lparr>status = 403, reply = JObj [(''error'', JStr ''Unauthorized log publisher'')]\<rparr>, g)
      else
        (let channel = publishChannel b;
             (delivered, g1) = broadcastLog channel (logData b) g;
             g2 = g1\<lparr>stats := (stats g1)\<lparr>logsPublished := logsPublished (stats g1) + 1\<rparr>\<rparr>;
             (ts, w1) = Date_now (world g2)
         in (\<lparr>status = 200,
              reply = JObj [(''success'', JBool True), (''channel'', JStr channel),
                            (''delivered'', JNum (int delivered)), (''timestamp'', JNum ts)]\<rparr>,
             g2\<lparr>world := w1\<rparr>)))"

subsection \<open>\<open>handleLogsSSE\<close>\<close>

text \<open>
  \<open>req.query.channels\<close> is absent, a string, or (when the parameter is repeated) an
  array. An array is truthy and has no \<open>split\<close>: the handler raises a \<open>TypeError\<close>.
\<close>

datatype query = QAbsent | QStr string | QList "string list"

datatype js_error = TypeError

datatype outcome = Returned | Threw

record subscribe_request =
  x_user_id :: "string option"
  channels_query :: query
  resThrows :: bool

definition requestedChannels :: "query \<Rightarrow> js_error + string list" where
  "requestedChannels q =
     (case q of
        QAbsent \<Rightarrow> Inr []
      | QStr s \<Rightarrow> if s = [] then Inr [] else Inr (js_split CHR '','' s)
      | QList xs \<Rightarrow> Inl TypeError)"

definition mintConnectionId :: "string \<Rightarrow> world \<Rightarrow> string \<times> world" where
  "mintConnectionId uid w =
     (let (t0, w1) = Date_now w;
          (r, w2) = random_suffix w1
      in (uid @ ''_'' @ number_string t0 @ ''_'' @ r, w2))"

definition sse_headers :: "(string \<times> string) list" where
  "sse_headers =
     [(''Content-Type'', ''text/event-stream''),
      (''Cache-Control'', ''no-cache, no-transform''),
      (''Connection'', ''keep-alive''),
      (''X-Accel-Buffering'', ''no''),
      (''Access-Control-Allow-Origin'', ''*''),
      (''Access-Control-Allow-Headers'', ''Cache-Control, Authorization, X-User-Id, X-Workspace-Id'')]"

definition subscribe :: "string \<Rightarrow> (string \<rightharpoonup> string list) \<Rightarrow> string \<Rightarrow> (string \<rightharpoonup> string list)" where
  "subscribe cid lc channel =
     (let lc1 = (if lc channel = None then lc(channel \<mapsto> []) else lc)
      in case lc1 channel of
           None \<Rightarrow> lc1
         | Some s \<Rightarrow> lc1(channel \<mapsto> set_add cid s))"

definition handshake :: "string list \<Rightarrow> string \<Rightarrow> string \<Rightarrow> int \<Rightarrow> string" where
  "handshake allowedChannels uid cid ts =
     ''data: '' @
     JSON_stringify
       (JObj [(''type'', JStr ''connection''),
              (''status'', JStr ''connected''),
              (''channels'', JArr (map JStr allowedChannels)),
              (''userId'', JStr uid),
              (''connectionId'', JStr cid),
              (''timestamp'', JNum ts)]) @
     [CHR 0x0A, CHR 0x0A]"

definition handleLogsSSE :: "subscribe_request \<Rightarrow> gateway \<Rightarrow> outcome \<times> gateway" where
  "handleLogsSSE req g =
     (let u = mock_user (x_user_id req);
          uid = user_id u;
          (cid, w1) = mintConnectionId uid (world g)
      in case requestedChannels (channels_query req) of
           Inl e \<Rightarrow> (Threw, g\<lparr>world := w1\<rparr>)
         | Inr requested \<Rightarrow>
             (let allowedChannels = getUserLogChannels u requested;
                  res0 = \<lparr>statusCode = 200, headers = sse_headers, chunks = [],
                          writeThrows = resThrows req\<rparr>;
                  (t1, w2) = Date_now w1;
                  conn = \<lparr>res = res0, userId = uid, connectionId = cid,
                          channels = allowedChannels, connectedAt = t1, logsSent = 0\<rparr>;
                  conns1 = (connections g)(cid \<mapsto> conn);
                  stats1 = (stats g)\<lparr>totalConnections := totalConnections (stats g) + 1\<rparr>;
                  lc1 = foldl (subscribe cid) (logChannels g) allowedChannels;
                  (t2, w3) = Date_now w2;
                  g1 = g\<lparr>connections := conns1, logChannels := lc1, stats := stats1,
                         world := w3\<rparr>
              in case res_write res0 (handshake allowedChannels uid cid t2) of
                   None \<Rightarrow> (Threw, g1)
                 | Some res1 \<Rightarrow>
                     (Returned, g1\<lparr>connections := conns1(cid \<mapsto> conn\<lparr>res := res1\<rparr>)\<rparr>)))"

subsection \<open>Reading a reply, and the inputs of the worked examples\<close>

text \<open>The member \<open>k\<close> of a JSON object.\<close>

definition json_member :: "json \<Rightarrow> string \<Rightarrow> json option" where
  "json_member j k = (case j of JObj kvs \<Rightarrow> map_of kvs k | _ \<Rightarrow> None)"

text \<open>A clock that advances by one millisecond per reading, and a body as in the README.\<close>

definition demo_world :: world where
  "demo_world = \<lparr>clock = (\<lambda>n. 1000 + int n), clockReads = 0,
                  entropy = (\<lambda>n. [10, 11, 12, n]), randomReads = 0\<rparr>"

definition demo_body :: publish_body where
  "demo_body = \<lparr>service = Some ''etl'', workspace_id = Some ''workspace123'',
                 workflow_id = Some ''workflow456'', function_id = None,
                 logData = Some (JObj [(''level'', JStr ''INFO''), (''message'', JStr ''hello'')])\<rparr>"

text \<open>A subscribe request without a user header and without channels, on a stream that accepts writes.\<close>

definition demo_subscribe :: subscribe_request where
  "demo_subscribe = \<lparr>x_user_id = None, channels_query = QAbsent, resThrows = False\<rparr>"

subsection \<open>The registry invariant and the runs of the gateway\<close>

definition subscribers_of :: "gateway \<Rightarrow> string \<Rightarrow> string list" where
  "subscribers_of g channel = (case logChannels g channel of None \<Rightarrow> [] | Some s \<Rightarrow> s)"

text \<open>
  The reverse index is exact: the members of a channel's entry are the ids of the registered
  connections whose \<open>channels\<close> contain the channel, and no entry is an empty set.
\<close>

definition index_exact :: "gateway \<Rightarrow> bool" where
  "index_exact g \<longleftrightarrow>
     (\<forall>channel. set (subscribers_of g channel) =
        {cid. \<exists>c. connections g cid = Some c \<and> channel \<in> set (channels c)}) \<and>
     (\<forall>channel. logChannels g channel \<noteq> Some [])"

text \<open>A subscriber that \<open>broadcastLog\<close> can write to: it is registered and its stream
  does not raise.\<close>

definition deliverable :: "gateway \<Rightarrow> string \<Rightarrow> bool" where
  "deliverable g cid =
     (case connections g cid of None \<Rightarrow> False | Some c \<Rightarrow> \<not> writeThrows (res c))"

text \<open>
  The states the gateway reaches when every connection id minted by \<open>handleLogsSSE\<close>
  differs from the ids registered at that moment. The steps are the constructor, the two
  handlers, \<open>broadcastLog\<close> on its own (the test endpoint), \<open>removeConnection\<close> (the
  \<open>close\<close> event), and what the environment does: a connection's stream changes
  (a heartbeat is written, the socket fails), the clock and the random source move on.
\<close>

inductive reachable_fresh :: "gateway \<Rightarrow> bool" where
  start: "reachable_fresh (new_gateway w)"
| subscribed:
    "reachable_fresh g \<Longrightarrow>
     connections g (fst (mintConnectionId (user_id (mock_user (x_user_id req))) (world g))) = None \<Longrightarrow>
     reachable_fresh (snd (handleLogsSSE req g))"
| published: "reachable_fresh g \<Longrightarrow> reachable_fresh (snd (handleLogsPublish preq g))"
| broadcast: "reachable_fresh g \<Longrightarrow> reachable_fresh (snd (broadcastLog channel payload g))"
| closed: "reachable_fresh g \<Longrightarrow> reachable_fresh (removeConnection cid g)"
| stream:
    "reachable_fresh g \<Longrightarrow> connections g cid = Some c \<Longrightarrow>
     reachable_fresh (g\<lparr>connections := (connections g)(cid \<mapsto> c\<lparr>res := r\<rparr>)\<rparr>)"
| environment: "reachable_fresh g \<Longrightarrow> reachable_fresh (g\<lparr>world := w\<rparr>)"

code_pred reachable_fresh .

text \<open>A clock that stands still while the random numbers differ only from their tenth
  base-36 digit on; and the gateway after one subscribe to the channel of \<open>demo_body\<close>.\<close>

definition still_world :: world where
  "still_world = \<lparr>clock = (\<lambda>n. 1000), clockReads = 0,
                   entropy = (\<lambda>n. [10, 11, 12, 13, 14, 15, 16, 17, 18, n]), randomReads = 0\<rparr>"

definition demo_subscribed :: gateway where
  "demo_subscribed =
     snd (handleLogsSSE
       (demo_subscribe\<lparr>channels_query := QStr ''logs:etl:workspace123:workflow456''\<rparr>)
       (new_gateway demo_world))"

definition demo_publish :: publish_request where
  "demo_publish = \<lparr>x_service_token = Some ''l5-etl-token'', body = demo_body\<rparr>"

text \<open>
  A subscriber on whose stream \<open>res.write\<close> raises; the channels of a registered
  connection; and a record whose two stamps were read from the clock and the random source
  between two states of the oracle: the timestamp at some reading \<open>n\<close>, the id from the
  reading after it and from some draw \<open>m\<close>.
\<close>

definition raising :: "gateway \<Rightarrow> string \<Rightarrow> bool" where
  "raising g cid = (case connections g cid of None \<Rightarrow> False | Some c \<Rightarrow> writeThrows (res c))"

definition channels_of :: "gateway \<Rightarrow> string \<Rightarrow> string list" where
  "channels_of g cid = (case connections g cid of None \<Rightarrow> [] | Some c \<Rightarrow> channels c)"

definition stamped_between :: "world \<Rightarrow> world \<Rightarrow> string \<Rightarrow> json option \<Rightarrow> string \<Rightarrow> bool" where
  "stamped_between w w' channel payload x \<longleftrightarrow>
     (\<exists>n\<in>{clockReads w ..< clockReads w' - 1}. \<exists>m\<in>{randomReads w ..< randomReads w'}.
        x = data_record channel payload (clock w n)
              (''log-'' @ number_string (clock w (Suc n)) @ ''-'' @
               take 9 (map base36_digit (entropy w m))))"

text \<open>The gateway of \<open>demo_subscribed\<close> after a second subscribe to the same channel,
  on a stream that raises.\<close>

definition demo_two_subscribers :: gateway where
  "demo_two_subscribers =
     snd (handleLogsSSE
       (demo_subscribe\<lparr>channels_query := QStr ''logs:etl:workspace123:workflow456'', resThrows := True\<rparr>)
       demo_subscribed)"

section \<open>Properties\<close>

subsection \<open>Text produced by the gateway\<close>

lemma digits10_lt: "n < 10 \<Longrightarrow> digits10 n = [''0123456789'' ! n]"
  by (subst digits10.simps) simp

lemma digits10_ge: "\<not> n < 10 \<Longrightarrow> digits10 n = digits10 (n div 10) @ [''0123456789'' ! (n mod 10)]"
  by (subst digits10.simps) simp

lemma digit_char: "d < 10 \<Longrightarrow> ''0123456789'' ! d \<in> set ''0123456789''"
  by (rule nth_mem) simp

lemma digits10_chars: "set (digits10 n) \<subseteq> set ''0123456789''"
proof (induction n rule: digits10.induct)
  case (1 n)
  show ?case
  proof (cases "n < 10")
    case True
    then show ?thesis using digit_char [of n] by (simp add: digits10_lt)
  next
    case False
    have "n mod 10 < 10" by simp
    then have "''0123456789'' ! (n mod 10) \<in> set ''0123456789''" by (rule digit_char)
    with False 1 show ?thesis by (simp add: digits10_ge)
  qed
qed

lemma newline_notin_digits10: "CHR 0x0A \<notin> set (digits10 n)"
  using digits10_chars [of n] by auto

lemma newline_notin_number_string: "CHR 0x0A \<notin> set (number_string i)"
  by (simp add: number_string_def newline_notin_digits10)

lemma base36_digit_char: "base36_digit d \<in> set ''0123456789abcdefghijklmnopqrstuvwxyz''"
  unfolding base36_digit_def by (rule nth_mem) simp

lemma newline_notin_base36: "CHR 0x0A \<notin> set (map base36_digit ds)"
proof
  assume "CHR 0x0A \<in> set (map base36_digit ds)"
  then obtain d where "base36_digit d = CHR 0x0A" by auto
  with base36_digit_char [of d] show False by auto
qed

lemma newline_notin_random_suffix: "CHR 0x0A \<notin> set (fst (random_suffix w))"
  using newline_notin_base36 by (auto simp: random_suffix_def dest: in_set_takeD)

lemma hex_digit_char: "hex_digit d \<in> set ''0123456789abcdef''"
  unfolding hex_digit_def by (rule nth_mem) simp

lemma newline_notin_quote_char: "CHR 0x0A \<notin> set (quote_char c)"
proof -
  have h: "hex_digit d \<noteq> CHR 0x0A" for d using hex_digit_char [of d] by auto
  show ?thesis by (simp add: quote_char_def h h [symmetric])
qed

lemma newline_notin_quote_string: "CHR 0x0A \<notin> set (quote_string s)"
  by (simp add: quote_string_def newline_notin_quote_char)

lemma newline_notin_join:
  "(\<And>x. x \<in> set xs \<Longrightarrow> CHR 0x0A \<notin> set x) \<Longrightarrow> CHR 0x0A \<notin> set sep \<Longrightarrow> CHR 0x0A \<notin> set (join sep xs)"
  by (induction sep xs rule: join.induct) auto

lemma newline_notin_JSON_stringify: "CHR 0x0A \<notin> set (JSON_stringify j)"
proof (induction j)
  case (JArr xs)
  then have "CHR 0x0A \<notin> set (join '','' (map JSON_stringify xs))"
    by (intro newline_notin_join) auto
  then show ?case by simp
next
  case (JObj kvs)
  have "CHR 0x0A \<notin> set (join '','' (map (\<lambda>(k, v). quote_string k @ '':'' @ JSON_stringify v) kvs))"
  proof (rule newline_notin_join)
    fix x assume "x \<in> set (map (\<lambda>(k, v). quote_string k @ '':'' @ JSON_stringify v) kvs)"
    then obtain k v where kv: "(k, v) \<in> set kvs" and x: "x = quote_string k @ '':'' @ JSON_stringify v"
      by auto
    from kv JObj have "CHR 0x0A \<notin> set (JSON_stringify v)" by (auto simp: snds.simps)
    with x show "CHR 0x0A \<notin> set x" by (simp add: newline_notin_quote_string)
  qed simp
  then show ?case by simp
qed (simp_all add: newline_notin_number_string newline_notin_quote_string)

subsection \<open>The loops as closed forms\<close>

lemma getUserLogChannels_acc:
  "foldl (\<lambda>allowedChannels channel. if P channel then allowedChannels @ [channel] else allowedChannels) acc rs
     = acc @ filter P rs"
  by (induction rs arbitrary: acc) simp_all

lemma getUserLogChannels_filter: "getUserLogChannels u rs = filter (channel_allowed u) rs"
  by (simp add: getUserLogChannels_def getUserLogChannels_acc)

lemma set_add_idem: "set_add x (set_add x xs) = set_add x xs"
  by (simp add: set_add_def)

lemma set_set_add: "set (set_add x xs) = insert x (set xs)"
  by (auto simp: set_add_def)

lemma subscribe_eq:
  "subscribe cid lc ch = lc(ch \<mapsto> set_add cid (case lc ch of None \<Rightarrow> [] | Some s \<Rightarrow> s))"
  by (auto simp: subscribe_def Let_def split: option.splits)

lemma unsubscribe_eq:
  "unsubscribe cid lc ch =
     (case lc ch of None \<Rightarrow> lc
      | Some s \<Rightarrow> if set_delete cid s = [] then lc(ch := None) else lc(ch \<mapsto> set_delete cid s))"
  by (simp add: unsubscribe_def Let_def split: option.splits)

lemma foldl_subscribe:
  "foldl (subscribe cid) lc chs =
     (\<lambda>ch. if ch \<in> set chs then Some (set_add cid (case lc ch of None \<Rightarrow> [] | Some s \<Rightarrow> s)) else lc ch)"
proof (induction chs arbitrary: lc)
  case Nil
  show ?case by simp
next
  case (Cons a chs)
  have "foldl (subscribe cid) lc (a # chs) = foldl (subscribe cid) (subscribe cid lc a) chs"
    by simp
  also have "\<dots> = (\<lambda>ch. if ch \<in> set chs
       then Some (set_add cid (case subscribe cid lc a ch of None \<Rightarrow> [] | Some s \<Rightarrow> s))
       else subscribe cid lc a ch)"
    by (rule Cons)
  also have "\<dots> = (\<lambda>ch. if ch \<in> set (a # chs)
       then Some (set_add cid (case lc ch of None \<Rightarrow> [] | Some s \<Rightarrow> s)) else lc ch)"
    by (rule ext) (auto simp: subscribe_eq set_add_idem split: option.splits)
  finally show ?case .
qed

lemma foldl_unsubscribe:
  "foldl (unsubscribe cid) lc chs =
     (\<lambda>ch. if ch \<in> set chs then
              (case lc ch of None \<Rightarrow> None
               | Some s \<Rightarrow> if set_delete cid s = [] then None else Some (set_delete cid s))
            else lc ch)"
proof (induction chs arbitrary: lc)
  case Nil
  show ?case by simp
next
  case (Cons a chs)
  have "foldl (unsubscribe cid) lc (a # chs) = foldl (unsubscribe cid) (unsubscribe cid lc a) chs"
    by simp
  also have "\<dots> = (\<lambda>ch. if ch \<in> set chs then
              (case unsubscribe cid lc a ch of None \<Rightarrow> None
               | Some s \<Rightarrow> if set_delete cid s = [] then None else Some (set_delete cid s))
            else unsubscribe cid lc a ch)"
    by (rule Cons)
  also have "\<dots> = (\<lambda>ch. if ch \<in> set (a # chs) then
              (case lc ch of None \<Rightarrow> None
               | Some s \<Rightarrow> if set_delete cid s = [] then None else Some (set_delete cid s))
            else lc ch)"
    by (rule ext) (auto simp: unsubscribe_eq set_delete_def split: option.splits)
  finally show ?case .
qed

subsection \<open>The publish handler\<close>

lemma handleLogsPublish_rejected:
  "\<not> validateLogPublisher (x_service_token req) (service (body req)) \<Longrightarrow>
   handleLogsPublish req g =
     (\<lparr>status = 403, reply = JObj [(''error'', JStr ''Unauthorized log publisher'')]\<rparr>, g)"
  by (simp add: handleLogsPublish_def)

lemma handleLogsPublish_accepted:
  "validateLogPublisher (x_service_token req) (service (body req)) \<Longrightarrow>
   handleLogsPublish req g =
     (let channel = publishChannel (body req);
          r = broadcastLog channel (logData (body req)) g;
          g2 = (snd r)\<lparr>stats := (stats (snd r))\<lparr>logsPublished := logsPublished (stats (snd r)) + 1\<rparr>\<rparr>
      in (\<lparr>status = 200,
           reply = JObj [(''success'', JBool True), (''channel'', JStr channel),
                         (''delivered'', JNum (int (fst r))), (''timestamp'', JNum (fst (Date_now (world g2))))]\<rparr>,
          g2\<lparr>world := snd (Date_now (world g2))\<rparr>))"
  by (simp add: handleLogsPublish_def Let_def split: prod.splits)

lemma broadcastLog_no_subscribers:
  "logChannels g channel = None \<Longrightarrow> broadcastLog channel payload g = (0, g)"
  by (simp add: broadcastLog_def)

lemma new_gateway_fields:
  "connections (new_gateway w) = Map.empty"
  "logChannels (new_gateway w) = Map.empty"
  by (simp_all add: new_gateway_def Date_now_def)

lemma wrong_token_rejected: "\<not> validateLogPublisher (Some ''wrong'') (Some ''etl'')"
  by (simp add: validateLogPublisher_def js_get_def template_def js_field_def object_prototype_keys_def)

lemma etl_token_accepted: "validateLogPublisher (Some ''l5-etl-token'') (Some ''etl'')"
  by (simp add: validateLogPublisher_def js_get_def template_def js_field_def)

text \<open>
  Claim C9. For every declared service \<open>s\<close> (a string, or absent),
  \<open>validateLogPublisher("service-token", s)\<close> is true: the entry of \<open>service-token\<close> in
  the token table is the declared service itself. A publish request that carries the header
  \<open>X-Service-Token: service-token\<close> is therefore answered with status 200 whatever its
  body declares.
\<close>

theorem service_token_any_service:
  "validateLogPublisher (Some ''service-token'') s \<and>
   status (fst (handleLogsPublish (req\<lparr>x_service_token := Some ''service-token''\<rparr>) g)) = 200"
proof -
  have v: "validateLogPublisher (Some ''service-token'') s" for s
    by (simp add: validateLogPublisher_def js_get_def template_def)
  have "validateLogPublisher (x_service_token (req\<lparr>x_service_token := Some ''service-token''\<rparr>))
          (service (body (req\<lparr>x_service_token := Some ''service-token''\<rparr>)))"
    by (simp add: v)
  then show ?thesis
    by (simp add: handleLogsPublish_accepted Let_def v)
qed

text \<open>
  Claim C10, as the code has it. Let \<open>t\<close> be a token that is none of the four keys of the
  token table, and let the body omit \<open>service\<close>. Then \<open>validateLogPublisher(t, undefined)\<close>
  is true exactly when \<open>t\<close> is not the name of a member that the table inherits from
  \<open>Object.prototype\<close>: for such a name the lookup yields that member, not \<open>undefined\<close>.
  The request is answered 200 in the first case and 403 in the second.
\<close>

theorem unknown_token_without_service:
  assumes "t \<notin> {''l5-etl-token'', ''faas-token'', ''function-token'', ''service-token''}"
  shows "validateLogPublisher (Some t) None = (t \<notin> set object_prototype_keys) \<and>
         status (fst (handleLogsPublish \<lparr>x_service_token = Some t, body = b\<lparr>service := None\<rparr>\<rparr> g))
           = (if t \<in> set object_prototype_keys then 403 else 200)"
proof -
  have v: "validateLogPublisher (Some t) None = (t \<notin> set object_prototype_keys)"
    using assms by (simp add: validateLogPublisher_def js_get_def template_def js_field_def)
  show ?thesis
  proof (cases "t \<in> set object_prototype_keys")
    case True
    with v show ?thesis by (simp add: handleLogsPublish_rejected)
  next
    case False
    with v show ?thesis by (simp add: handleLogsPublish_accepted Let_def)
  qed
qed

theorem unknown_token_without_service_witness:
  "''wrong'' \<notin> {''l5-etl-token'', ''faas-token'', ''function-token'', ''service-token''} \<and>
   validateLogPublisher (Some ''wrong'') None \<and>
   status (fst (handleLogsPublish
     \<lparr>x_service_token = Some ''wrong'', body = demo_body\<lparr>service := None\<rparr>\<rparr> (new_gateway demo_world))) = 200"
  using unknown_token_without_service [of "''wrong''" demo_body "new_gateway demo_world"]
  by (simp add: object_prototype_keys_def)

text \<open>
  The token \<open>constructor\<close> is not in the table, yet the lookup finds the inherited
  \<open>Object.prototype.constructor\<close>; a body without \<open>service\<close> is rejected with 403.
\<close>

theorem inherited_member_token_counterexample:
  "''constructor'' \<notin> {''l5-etl-token'', ''faas-token'', ''function-token'', ''service-token''} \<and>
   \<not> validateLogPublisher (Some ''constructor'') None \<and>
   fst (handleLogsPublish
     \<lparr>x_service_token = Some ''constructor'', body = demo_body\<lparr>service := None\<rparr>\<rparr> (new_gateway demo_world))
     = \<lparr>status = 403, reply = JObj [(''error'', JStr ''Unauthorized log publisher'')]\<rparr>"
proof -
  have v: "\<not> validateLogPublisher (Some ''constructor'') None"
    by (simp add: validateLogPublisher_def js_get_def template_def js_field_def object_prototype_keys_def)
  then show ?thesis by (simp add: handleLogsPublish_rejected)
qed

text \<open>
  Claim C1, as the code has it. A publish is accepted (status 200) exactly when
  \<open>validateLogPublisher\<close> accepts the token for the declared service. Otherwise the reply
  is status 403 with the body \<open>{"error": "Unauthorized log publisher"}\<close> and the gateway is
  left as it was, so nothing is written to any subscriber. The declared service is not
  compared with the service component of the channel.
\<close>

theorem publish_authorization:
  "(validateLogPublisher (x_service_token req) (service (body req)) \<longrightarrow>
      status (fst (handleLogsPublish req g)) = 200) \<and>
   (\<not> validateLogPublisher (x_service_token req) (service (body req)) \<longrightarrow>
      fst (handleLogsPublish req g) =
        \<lparr>status = 403, reply = JObj [(''error'', JStr ''Unauthorized log publisher'')]\<rparr> \<and>
      snd (handleLogsPublish req g) = g)"
  by (simp add: handleLogsPublish_rejected handleLogsPublish_accepted Let_def)

theorem publish_authorization_witness:
  "\<not> validateLogPublisher (Some ''wrong'') (Some ''etl'') \<and>
   fst (handleLogsPublish \<lparr>x_service_token = Some ''wrong'', body = demo_body\<rparr> (new_gateway demo_world)) =
     \<lparr>status = 403, reply = JObj [(''error'', JStr ''Unauthorized log publisher'')]\<rparr> \<and>
   snd (handleLogsPublish \<lparr>x_service_token = Some ''wrong'', body = demo_body\<rparr> (new_gateway demo_world)) =
     new_gateway demo_world \<and>
   validateLogPublisher (Some ''l5-etl-token'') (Some ''etl'') \<and>
   status (fst (handleLogsPublish \<lparr>x_service_token = Some ''l5-etl-token'', body = demo_body\<rparr>
     (new_gateway demo_world))) = 200"
  using publish_authorization [of "\<lparr>x_service_token = Some ''wrong'', body = demo_body\<rparr>" "new_gateway demo_world"]
    publish_authorization [of "\<lparr>x_service_token = Some ''l5-etl-token'', body = demo_body\<rparr>" "new_gateway demo_world"]
    wrong_token_rejected etl_token_accepted
  by (simp add: demo_body_def)

text \<open>
  With the token of the service \<open>etl\<close> and a \<open>function_id\<close>, the publish is accepted on
  the channel \<open>logs:function:workspace123:fn1\<close>, whose service component is \<open>function\<close>
  and not the declared \<open>etl\<close>; and the body of a rejection is not
  \<open>{"error": "unauthorized_service"}\<close>.
\<close>

theorem service_mismatch_accepted_counterexample:
  "validateLogPublisher (Some ''l5-etl-token'') (Some ''etl'') \<and>
   status (fst (handleLogsPublish
     \<lparr>x_service_token = Some ''l5-etl-token'', body = demo_body\<lparr>function_id := Some ''fn1''\<rparr>\<rparr>
     (new_gateway demo_world))) = 200 \<and>
   json_member (reply (fst (handleLogsPublish
     \<lparr>x_service_token = Some ''l5-etl-token'', body = demo_body\<lparr>function_id := Some ''fn1''\<rparr>\<rparr>
     (new_gateway demo_world)))) ''channel'' = Some (JStr ''logs:function:workspace123:fn1'') \<and>
   nth_opt (js_split CHR '':'' ''logs:function:workspace123:fn1'') 1 = Some ''function'' \<and>
   service (demo_body\<lparr>function_id := Some ''fn1''\<rparr>) = Some ''etl'' \<and>
   reply (fst (handleLogsPublish \<lparr>x_service_token = Some ''wrong'', body = demo_body\<rparr>
     (new_gateway demo_world))) \<noteq> JObj [(''error'', JStr ''unauthorized_service'')]"
proof -
  have sp: "nth_opt (js_split CHR '':'' ''logs:function:workspace123:fn1'') 1 = Some ''function''"
    by (simp add: nth_opt_def)
  show ?thesis
    using wrong_token_rejected etl_token_accepted sp
    by (simp add: handleLogsPublish_rejected handleLogsPublish_accepted Let_def demo_body_def
        json_member_def publishChannel_def truthy_def template_def)
qed

text \<open>
  Claim C2, as the code has it. The target channel of a publish request body (for an
  accepted publish, the channel named in the reply and used for the fan-out) is derived
  with this precedence: if
  \<open>function_id\<close> is present and not the empty string, it is
  \<open>logs:function:<workspace_id>:<function_id>\<close>; otherwise, if \<open>workflow_id\<close> is present
  and not the empty string, it is \<open>logs:<service>:<workspace_id>:<workflow_id>\<close>;
  otherwise it is \<open>logs:<service>:<workspace_id>\<close>. An absent \<open>service\<close> or
  \<open>workspace_id\<close> is rendered as the text \<open>undefined\<close>.
\<close>

theorem publish_channel_precedence:
  "(validateLogPublisher (x_service_token req) (service (body req)) \<longrightarrow>
           json_member (reply (fst (handleLogsPublish req g))) ''channel'' =
             Some (JStr (publishChannel (body req))) \<and>
           connections (snd (handleLogsPublish req g)) =
             connections (snd (broadcastLog (publishChannel (body req)) (logData (body req)) g))) \<and>
         (\<forall>f. function_id (body req) = Some f \<and> f \<noteq> [] \<longrightarrow>
            publishChannel (body req) =
              ''logs:function:'' @ template (workspace_id (body req)) @ '':'' @ f) \<and>
         (\<forall>wf. \<not> truthy (function_id (body req)) \<and> workflow_id (body req) = Some wf \<and> wf \<noteq> [] \<longrightarrow>
            publishChannel (body req) =
              ''logs:'' @ template (service (body req)) @ '':'' @
              template (workspace_id (body req)) @ '':'' @ wf) \<and>
         (\<not> truthy (function_id (body req)) \<and> \<not> truthy (workflow_id (body req)) \<longrightarrow>
            publishChannel (body req) =
              ''logs:'' @ template (service (body req)) @ '':'' @ template (workspace_id (body req)))"
  by (simp add: handleLogsPublish_accepted Let_def json_member_def publishChannel_def truthy_def template_def)

theorem publish_channel_precedence_witness:
  "validateLogPublisher (Some ''function-token'') (Some ''function'') \<and>
   json_member (reply (fst (handleLogsPublish
     \<lparr>x_service_token = Some ''function-token'',
      body = demo_body\<lparr>service := Some ''function'', function_id := Some ''fn1''\<rparr>\<rparr>
     (new_gateway demo_world)))) ''channel'' = Some (JStr ''logs:function:workspace123:fn1'')"
proof -
  have good: "validateLogPublisher (Some ''function-token'') (Some ''function'')"
    by (simp add: validateLogPublisher_def js_get_def template_def js_field_def)
  show ?thesis
    using good publish_channel_precedence [of "\<lparr>x_service_token = Some ''function-token'',
      body = demo_body\<lparr>service := Some ''function'', function_id := Some ''fn1''\<rparr>\<rparr>" "new_gateway demo_world"]
    by (simp add: demo_body_def template_def)
qed

text \<open>
  A body whose \<open>function_id\<close> is present but empty, with a \<open>workflow_id\<close>: the channel
  is the workflow channel, not \<open>logs:function:workspace123:\<close>.
\<close>

theorem empty_function_id_counterexample:
  "function_id (demo_body\<lparr>function_id := Some []\<rparr>) = Some [] \<and>
   workspace_id (demo_body\<lparr>function_id := Some []\<rparr>) = Some ''workspace123'' \<and>
   json_member (reply (fst (handleLogsPublish
     \<lparr>x_service_token = Some ''l5-etl-token'', body = demo_body\<lparr>function_id := Some []\<rparr>\<rparr>
     (new_gateway demo_world)))) ''channel'' = Some (JStr ''logs:etl:workspace123:workflow456'')"
  using etl_token_accepted
  by (simp add: handleLogsPublish_accepted Let_def json_member_def demo_body_def
      publishChannel_def truthy_def template_def)

subsection \<open>The subscribe handler\<close>

lemma handleLogsSSE_TypeError:
  "requestedChannels (channels_query req) = Inl e \<Longrightarrow> fst (handleLogsSSE req g) = Threw"
  by (simp add: handleLogsSSE_def Let_def split: prod.splits)

lemma handleLogsSSE_TypeError_state:
  "requestedChannels (channels_query req) = Inl e \<Longrightarrow>
   snd (handleLogsSSE req g) =
     g\<lparr>world := snd (mintConnectionId (user_id (mock_user (x_user_id req))) (world g))\<rparr>"
  by (simp add: handleLogsSSE_def Let_def split: prod.splits)

lemma demo_subscribe_fields:
  "x_user_id demo_subscribe = None"
  "resThrows demo_subscribe = False"
  "x_user_id (demo_subscribe\<lparr>channels_query := q\<rparr>) = None"
  "resThrows (demo_subscribe\<lparr>channels_query := q\<rparr>) = False"
  by (simp_all add: demo_subscribe_def)

lemma mock_user_None: "user_id (mock_user None) = ''user123''"
  by (simp add: mock_user_def truthy_def)

lemma handleLogsSSE_registered:
  assumes "requestedChannels (channels_query req) = Inr rs"
  shows "fst (handleLogsSSE req g) = (if resThrows req then Threw else Returned)"
    and "logChannels (snd (handleLogsSSE req g)) =
           foldl (subscribe (fst (mintConnectionId (user_id (mock_user (x_user_id req))) (world g))))
             (logChannels g) (getUserLogChannels (mock_user (x_user_id req)) rs)"
    and "connections (snd (handleLogsSSE req g)) =
           (connections g)
             (fst (mintConnectionId (user_id (mock_user (x_user_id req))) (world g)) \<mapsto>
              \<lparr>res = \<lparr>statusCode = 200, headers = sse_headers,
                       chunks = (if resThrows req then []
                         else [handshake (getUserLogChannels (mock_user (x_user_id req)) rs)
                                 (user_id (mock_user (x_user_id req)))
                                 (fst (mintConnectionId (user_id (mock_user (x_user_id req))) (world g)))
                                 (fst (Date_now (snd (Date_now
                                    (snd (mintConnectionId (user_id (mock_user (x_user_id req))) (world g)))))))]),
                       writeThrows = resThrows req\<rparr>,
               userId = user_id (mock_user (x_user_id req)),
               connectionId = fst (mintConnectionId (user_id (mock_user (x_user_id req))) (world g)),
               channels = getUserLogChannels (mock_user (x_user_id req)) rs,
               connectedAt = fst (Date_now (snd (mintConnectionId (user_id (mock_user (x_user_id req))) (world g)))),
               logsSent = 0\<rparr>)"
  using assms
  by (simp_all add: handleLogsSSE_def Let_def res_write_def split: prod.splits)

lemma channel_allowed_iff:
  "channel_allowed u ch \<longleftrightarrow>
     nth_opt (js_split CHR '':'' ch) 0 = Some ''logs'' \<and>
     (\<exists>w. nth_opt (js_split CHR '':'' ch) 2 = Some w \<and> w \<in> set (workspace_ids u))"
  by (auto simp: channel_allowed_def Let_def split: option.splits)

text \<open>
  Claim C3, as the code has it. For a subscribe request whose \<open>channels\<close> query is a
  string or absent, a requested channel is in the connection's \<open>channels\<close> exactly when
  its first \<open>:\<close>-separated component is the literal \<open>logs\<close> and its third component
  exists and is one of the principal's workspaces. The service component is not examined (it
  may be empty). The other channels are left out without any error: the handler returns
  normally unless the write of the handshake raises.
\<close>
theorem subscribe_channel_filter:
  assumes "requestedChannels (channels_query req) = Inr rs"
  shows "fst (handleLogsSSE req g) = (if resThrows req then Threw else Returned) \<and>
         (\<exists>c. connections (snd (handleLogsSSE req g))
                 (fst (mintConnectionId (user_id (mock_user (x_user_id req))) (world g))) = Some c \<and>
              channels c = getUserLogChannels (mock_user (x_user_id req)) rs \<and>
              (\<forall>ch. ch \<in> set (channels c) \<longleftrightarrow>
                 ch \<in> set rs \<and>
                 nth_opt (js_split CHR '':'' ch) 0 = Some ''logs'' \<and>
                 (\<exists>w. nth_opt (js_split CHR '':'' ch) 2 = Some w \<and>
                      w \<in> set (workspace_ids (mock_user (x_user_id req))))))"
  by (simp add: handleLogsSSE_registered [OF assms] getUserLogChannels_filter channel_allowed_iff)

lemma demo_connection_id:
  "fst (mintConnectionId (user_id (mock_user None)) (world (new_gateway demo_world))) = ''user123_1001_abc0''"
  by (simp add: mintConnectionId_def mock_user_def truthy_def new_gateway_def Date_now_def
      random_suffix_def demo_world_def Let_def number_string_def digits10_lt digits10_ge base36_digit_def)

theorem subscribe_channel_filter_witness:
  "requestedChannels (QStr ''logs:etl:workspace123:workflow456,logs:etl:other,events:etl:workspace123'') =
     Inr [''logs:etl:workspace123:workflow456'', ''logs:etl:other'', ''events:etl:workspace123''] \<and>
   fst (handleLogsSSE
     (demo_subscribe\<lparr>channels_query := QStr ''logs:etl:workspace123:workflow456,logs:etl:other,events:etl:workspace123''\<rparr>)
     (new_gateway demo_world)) = Returned \<and>
   map_option channels (connections (snd (handleLogsSSE
     (demo_subscribe\<lparr>channels_query := QStr ''logs:etl:workspace123:workflow456,logs:etl:other,events:etl:workspace123''\<rparr>)
     (new_gateway demo_world))) ''user123_1001_abc0'') = Some [''logs:etl:workspace123:workflow456'']"
proof -
  have rq: "requestedChannels (channels_query (demo_subscribe\<lparr>channels_query := QStr ''logs:etl:workspace123:workflow456,logs:etl:other,events:etl:workspace123''\<rparr>)) =
     Inr [''logs:etl:workspace123:workflow456'', ''logs:etl:other'', ''events:etl:workspace123'']"
    by (simp add: requestedChannels_def)
  have f: "getUserLogChannels (mock_user None)
      [''logs:etl:workspace123:workflow456'', ''logs:etl:other'', ''events:etl:workspace123'']
      = [''logs:etl:workspace123:workflow456'']"
    by (simp add: getUserLogChannels_filter channel_allowed_def nth_opt_def mock_user_def)
  show ?thesis
    using subscribe_channel_filter [OF rq, of "new_gateway demo_world"] rq f demo_connection_id
    by (auto simp: demo_subscribe_def)
qed

text \<open>
  The channel \<open>logs::workspace123\<close>, whose service component is empty, is subscribed.
  And when the \<open>channels\<close> parameter is repeated, the query value is an array: the handler
  raises before it registers anything.
\<close>

theorem empty_service_channel_counterexample:
  "nth_opt (js_split CHR '':'' ''logs::workspace123'') 1 = Some [] \<and>
   map_option channels (connections (snd (handleLogsSSE
     (demo_subscribe\<lparr>channels_query := QStr ''logs::workspace123''\<rparr>)
     (new_gateway demo_world))) ''user123_1001_abc0'') = Some [''logs::workspace123''] \<and>
   handleLogsSSE
     (demo_subscribe\<lparr>channels_query := QList [''logs:etl:workspace123'', ''logs:faas:workspace123'']\<rparr>)
     (new_gateway demo_world) =
     (Threw, (new_gateway demo_world)\<lparr>world := snd (mintConnectionId ''user123''
                (world (new_gateway demo_world)))\<rparr>)"
proof -
  have ql: "requestedChannels (channels_query
      (demo_subscribe\<lparr>channels_query := QList [''logs:etl:workspace123'', ''logs:faas:workspace123'']\<rparr>)) =
      Inl TypeError"
    by (simp add: requestedChannels_def)
  have thrown: "handleLogsSSE
     (demo_subscribe\<lparr>channels_query := QList [''logs:etl:workspace123'', ''logs:faas:workspace123'']\<rparr>)
     (new_gateway demo_world) =
     (Threw, (new_gateway demo_world)\<lparr>world := snd (mintConnectionId ''user123''
                (world (new_gateway demo_world)))\<rparr>)"
    using handleLogsSSE_TypeError [OF ql, of "new_gateway demo_world"]
      handleLogsSSE_TypeError_state [OF ql, of "new_gateway demo_world"]
    by (simp add: prod_eq_iff demo_subscribe_fields mock_user_None)
  have rq: "requestedChannels (channels_query (demo_subscribe\<lparr>channels_query := QStr ''logs::workspace123''\<rparr>)) =
     Inr [''logs::workspace123'']"
    by (simp add: requestedChannels_def)
  have f: "getUserLogChannels (mock_user None) [''logs::workspace123''] = [''logs::workspace123'']"
    by (simp add: getUserLogChannels_filter channel_allowed_def nth_opt_def mock_user_def)
  have x: "x_user_id (demo_subscribe\<lparr>channels_query := QStr ''logs::workspace123''\<rparr>) = None"
    by (simp add: demo_subscribe_def)
  show ?thesis
    using thrown
    by (simp add: handleLogsSSE_registered(3) [OF rq] x f demo_connection_id nth_opt_def)
qed


lemma requestedChannels_Inl_iff:
  "(\<exists>e. requestedChannels q = Inl e) \<longleftrightarrow> (\<exists>xs. q = QList xs)"
  by (cases q) (simp_all add: requestedChannels_def)

lemma requestedChannels_Inr_iff:
  "(\<exists>rs. requestedChannels q = Inr rs) \<longleftrightarrow> (\<forall>xs. q \<noteq> QList xs)"
  by (cases q) (simp_all add: requestedChannels_def)

lemma handshake_time:
  "fst (Date_now (snd (Date_now (snd (mintConnectionId uid w))))) = clock w (clockReads w + 2)"
  by (simp add: mintConnectionId_def Date_now_def random_suffix_def Let_def)

text \<open>
  Claim C4. The subscribe handler returns normally exactly when the \<open>channels\<close> query is
  not an array and the write of the handshake does not raise. When it returns normally, the
  connection it registered has a response with status 200 and the event-stream headers whose
  only chunk so far, hence the first record on the stream, is \<open>data: <JSON>\<close> followed by
  a blank line, on a single line, where the JSON object has \<open>type\<close> \<open>connection\<close>,
  \<open>status\<close> \<open>connected\<close>, \<open>channels\<close> the authorized channels of the connection and
  \<open>timestamp\<close> the third reading of the clock. Nothing in this depends on the authorized
  channels being non-empty. When the query is an array, nothing is registered.
\<close>
theorem handshake_first_record:
  "(fst (handleLogsSSE req g) = Returned \<longleftrightarrow>
      (\<forall>xs. channels_query req \<noteq> QList xs) \<and> \<not> resThrows req) \<and>
   (fst (handleLogsSSE req g) = Returned \<longrightarrow>
      (\<exists>rs c.
           requestedChannels (channels_query req) = Inr rs \<and>
           connections (snd (handleLogsSSE req g))
             (fst (mintConnectionId (user_id (mock_user (x_user_id req))) (world g))) = Some c \<and>
           statusCode (res c) = 200 \<and>
           headers (res c) = sse_headers \<and>
           channels c = getUserLogChannels (mock_user (x_user_id req)) rs \<and>
           chunks (res c) =
             [''data: '' @
              JSON_stringify
                (JObj [(''type'', JStr ''connection''),
                       (''status'', JStr ''connected''),
                       (''channels'', JArr (map JStr (channels c))),
                       (''userId'', JStr (user_id (mock_user (x_user_id req)))),
                       (''connectionId'',
                          JStr (fst (mintConnectionId (user_id (mock_user (x_user_id req))) (world g)))),
                       (''timestamp'', JNum (clock (world g) (clockReads (world g) + 2)))]) @
              [CHR 0x0A, CHR 0x0A]] \<and>
           CHR 0x0A \<notin> set (JSON_stringify
                (JObj [(''type'', JStr ''connection''),
                       (''status'', JStr ''connected''),
                       (''channels'', JArr (map JStr (channels c))),
                       (''userId'', JStr (user_id (mock_user (x_user_id req)))),
                       (''connectionId'',
                          JStr (fst (mintConnectionId (user_id (mock_user (x_user_id req))) (world g)))),
                       (''timestamp'', JNum (clock (world g) (clockReads (world g) + 2)))])))) \<and>
   ((\<exists>xs. channels_query req = QList xs) \<longrightarrow>
      connections (snd (handleLogsSSE req g)) = connections g \<and>
      logChannels (snd (handleLogsSSE req g)) = logChannels g)"
proof (cases "requestedChannels (channels_query req)")
  case (Inl e)
  then have l: "\<exists>xs. channels_query req = QList xs"
    using requestedChannels_Inl_iff [of "channels_query req"] by auto
  with Inl show ?thesis
    by (auto simp: handleLogsSSE_TypeError handleLogsSSE_TypeError_state)
next
  case (Inr rs)
  then have nl: "\<forall>xs. channels_query req \<noteq> QList xs"
    using requestedChannels_Inr_iff [of "channels_query req"] by auto
  have acc: "fst (handleLogsSSE req g) = Returned \<longleftrightarrow>
      (\<forall>xs. channels_query req \<noteq> QList xs) \<and> \<not> resThrows req"
    using nl by (simp add: handleLogsSSE_registered(1) [OF Inr])
  have hs: "\<not> resThrows req \<Longrightarrow> ?thesis"
    using nl acc newline_notin_JSON_stringify
    by (simp only: Inr handleLogsSSE_registered(3) [OF Inr] handshake_def handshake_time) auto
  show ?thesis
  proof (cases "resThrows req")
    case True
    with nl acc show ?thesis by auto
  next
    case False
    then show ?thesis by (rule hs)
  qed
qed

lemma foldl_subscribe_cong:
  "set xs = set ys \<Longrightarrow> foldl (subscribe cid) lc xs = foldl (subscribe cid) lc ys"
  by (simp add: foldl_subscribe)

text \<open>
  Claim C7, as the code has it. Two subscribe requests that differ only in their
  \<open>channels\<close> query, both queries being comma-separated strings (or absent) that name
  the same set of channels, leave the same reverse index. The connection's \<open>channels\<close> (and with it the handshake's list)
  is the requested list filtered, in order and with every repetition kept: the two
  connections agree on it as a set only.
\<close>

theorem duplicate_channels_same_index:
  assumes "requestedChannels (channels_query req) = Inr xs"
    and "requestedChannels q = Inr ys"
    and "set xs = set ys"
  shows "logChannels (snd (handleLogsSSE (req\<lparr>channels_query := q\<rparr>) g)) =
           logChannels (snd (handleLogsSSE req g)) \<and>
         (\<exists>c c'. connections (snd (handleLogsSSE req g))
                    (fst (mintConnectionId (user_id (mock_user (x_user_id req))) (world g))) = Some c \<and>
                  connections (snd (handleLogsSSE (req\<lparr>channels_query := q\<rparr>) g))
                    (fst (mintConnectionId (user_id (mock_user (x_user_id req))) (world g))) = Some c' \<and>
                  channels c = filter (channel_allowed (mock_user (x_user_id req))) xs \<and>
                  channels c' = filter (channel_allowed (mock_user (x_user_id req))) ys \<and>
                  set (channels c') = set (channels c))"
proof -
  have q: "requestedChannels (channels_query (req\<lparr>channels_query := q\<rparr>)) = Inr ys"
    using assms(2) by simp
  have s: "set (getUserLogChannels (mock_user (x_user_id req)) xs) =
           set (getUserLogChannels (mock_user (x_user_id req)) ys)"
    using assms(3) by (simp add: getUserLogChannels_filter)
  have lc: "logChannels (snd (handleLogsSSE (req\<lparr>channels_query := q\<rparr>) g)) =
           logChannels (snd (handleLogsSSE req g))"
    by (simp add: handleLogsSSE_registered(2) [OF assms(1)] handleLogsSSE_registered(2) [OF q]
        foldl_subscribe_cong [OF s])
  show ?thesis
    using s
    by (simp add: lc handleLogsSSE_registered(3) [OF assms(1)] handleLogsSSE_registered(3) [OF q]
        getUserLogChannels_filter)
qed

theorem duplicate_channels_same_index_witness:
  "requestedChannels (QStr ''logs:etl:workspace123,logs:etl:workspace123'') =
     Inr [''logs:etl:workspace123'', ''logs:etl:workspace123''] \<and>
   requestedChannels (QStr ''logs:etl:workspace123'') = Inr [''logs:etl:workspace123''] \<and>
   logChannels (snd (handleLogsSSE
       (demo_subscribe\<lparr>channels_query := QStr ''logs:etl:workspace123''\<rparr>) (new_gateway demo_world))) =
     logChannels (snd (handleLogsSSE
       (demo_subscribe\<lparr>channels_query := QStr ''logs:etl:workspace123,logs:etl:workspace123''\<rparr>)
       (new_gateway demo_world)))"
proof -
  have a: "requestedChannels (channels_query (demo_subscribe\<lparr>channels_query := QStr ''logs:etl:workspace123,logs:etl:workspace123''\<rparr>)) =
     Inr [''logs:etl:workspace123'', ''logs:etl:workspace123'']"
    by (simp add: requestedChannels_def)
  have b: "requestedChannels (QStr ''logs:etl:workspace123'') = Inr [''logs:etl:workspace123'']"
    by (simp add: requestedChannels_def)
  have c: "set [''logs:etl:workspace123'', ''logs:etl:workspace123''] = set [''logs:etl:workspace123'']"
    by simp
  show ?thesis
    using duplicate_channels_same_index [OF a b c, of "new_gateway demo_world"] a b
    by simp
qed

text \<open>
  The query \<open>logs:etl:workspace123,logs:etl:workspace123\<close> against the query
  \<open>logs:etl:workspace123\<close>: the channel is held twice in the connection's \<open>channels\<close>
  and twice in the handshake, whose text differs from the handshake of the single listing.
  Listed twice by repeating the parameter, the query is an array and the handler raises
  without registering a connection.
\<close>

theorem duplicate_channels_kept_counterexample:
  "map_option channels (connections (snd (handleLogsSSE
       (demo_subscribe\<lparr>channels_query := QStr ''logs:etl:workspace123,logs:etl:workspace123''\<rparr>)
       (new_gateway demo_world))) ''user123_1001_abc0'') =
     Some [''logs:etl:workspace123'', ''logs:etl:workspace123''] \<and>
   map_option channels (connections (snd (handleLogsSSE
       (demo_subscribe\<lparr>channels_query := QStr ''logs:etl:workspace123''\<rparr>)
       (new_gateway demo_world))) ''user123_1001_abc0'') =
     Some [''logs:etl:workspace123''] \<and>
   map_option (chunks \<circ> res) (connections (snd (handleLogsSSE
       (demo_subscribe\<lparr>channels_query := QStr ''logs:etl:workspace123,logs:etl:workspace123''\<rparr>)
       (new_gateway demo_world))) ''user123_1001_abc0'') =
     Some [handshake [''logs:etl:workspace123'', ''logs:etl:workspace123''] ''user123'' ''user123_1001_abc0'' 1003] \<and>
   map_option (chunks \<circ> res) (connections (snd (handleLogsSSE
       (demo_subscribe\<lparr>channels_query := QStr ''logs:etl:workspace123''\<rparr>)
       (new_gateway demo_world))) ''user123_1001_abc0'') =
     Some [handshake [''logs:etl:workspace123''] ''user123'' ''user123_1001_abc0'' 1003] \<and>
   handshake [''logs:etl:workspace123'', ''logs:etl:workspace123''] ''user123'' ''user123_1001_abc0'' 1003 \<noteq>
     handshake [''logs:etl:workspace123''] ''user123'' ''user123_1001_abc0'' 1003 \<and>
   fst (handleLogsSSE
       (demo_subscribe\<lparr>channels_query := QList [''logs:etl:workspace123'', ''logs:etl:workspace123'']\<rparr>)
       (new_gateway demo_world)) = Threw \<and>
   connections (snd (handleLogsSSE
       (demo_subscribe\<lparr>channels_query := QList [''logs:etl:workspace123'', ''logs:etl:workspace123'']\<rparr>)
       (new_gateway demo_world))) ''user123_1001_abc0'' = None"
proof -
  have ql: "requestedChannels (channels_query
      (demo_subscribe\<lparr>channels_query := QList [''logs:etl:workspace123'', ''logs:etl:workspace123'']\<rparr>)) =
      Inl TypeError"
    by (simp add: requestedChannels_def)
  have thrown: "fst (handleLogsSSE
       (demo_subscribe\<lparr>channels_query := QList [''logs:etl:workspace123'', ''logs:etl:workspace123'']\<rparr>)
       (new_gateway demo_world)) = Threw"
    by (rule handleLogsSSE_TypeError [OF ql])
  have none: "connections (snd (handleLogsSSE
       (demo_subscribe\<lparr>channels_query := QList [''logs:etl:workspace123'', ''logs:etl:workspace123'']\<rparr>)
       (new_gateway demo_world))) ''user123_1001_abc0'' = None"
    by (simp add: handleLogsSSE_TypeError_state [OF ql] new_gateway_fields)
  have d: "handshake [''logs:etl:workspace123'', ''logs:etl:workspace123''] ''user123'' ''user123_1001_abc0'' 1003 \<noteq>
     handshake [''logs:etl:workspace123''] ''user123'' ''user123_1001_abc0'' 1003"
    by (simp add: handshake_def quote_string_def quote_char_def)
  have a: "requestedChannels (channels_query (demo_subscribe\<lparr>channels_query := QStr ''logs:etl:workspace123,logs:etl:workspace123''\<rparr>)) =
     Inr [''logs:etl:workspace123'', ''logs:etl:workspace123'']"
    by (simp add: requestedChannels_def)
  have b: "requestedChannels (channels_query (demo_subscribe\<lparr>channels_query := QStr ''logs:etl:workspace123''\<rparr>)) = Inr [''logs:etl:workspace123'']"
    by (simp add: requestedChannels_def)
  have f: "channel_allowed (mock_user None) ''logs:etl:workspace123''"
    by (simp add: channel_allowed_def nth_opt_def mock_user_def)
  have t: "fst (Date_now (snd (Date_now (snd (mintConnectionId ''user123'' (world (new_gateway demo_world))))))) = 1003"
    by (simp add: mintConnectionId_def new_gateway_def Date_now_def random_suffix_def demo_world_def Let_def)
  show ?thesis
    using d thrown none
    by (simp add: handleLogsSSE_registered(3) [OF a] handleLogsSSE_registered(3) [OF b]
        demo_subscribe_fields getUserLogChannels_filter f mock_user_None t
        demo_connection_id [simplified mock_user_None])
qed

subsection \<open>The fan-out\<close>

lemma newline_notin_ident: "CHR 0x0A \<notin> set (snd (fst (envelope_stamp w)))"
  using newline_notin_random_suffix [of "snd (Date_now (snd (Date_now w)))"]
  by (simp add: envelope_stamp_def Let_def newline_notin_number_string case_prod_beta)

lemma deliver_absent:
  "connections g cid = None \<Longrightarrow> deliver channel payload cid (d, g) = (d, g)"
  by (simp add: deliver_def)

lemma deliver_throws:
  "connections g cid = Some conn \<Longrightarrow> writeThrows (res conn) \<Longrightarrow>
   deliver channel payload cid (d, g) =
     (d, removeConnection cid (g\<lparr>world := snd (envelope_stamp (world g))\<rparr>))"
  by (simp add: deliver_def Let_def res_write_def split: prod.splits)

lemma deliver_writes:
  "connections g cid = Some conn \<Longrightarrow> \<not> writeThrows (res conn) \<Longrightarrow>
   deliver channel payload cid (d, g) =
     (d + 1,
      g\<lparr>world := snd (envelope_stamp (world g)),
        connections := (connections g)(cid \<mapsto>
          conn\<lparr>res := (res conn)\<lparr>chunks := chunks (res conn) @
                   [data_record channel payload (fst (fst (envelope_stamp (world g))))
                      (snd (fst (envelope_stamp (world g))))]\<rparr>,
               logsSent := logsSent conn + 1\<rparr>)\<rparr>)"
  by (simp add: deliver_def Let_def res_write_def split: prod.splits)

lemma removeConnection_connections:
  "connections (removeConnection cid g) = (connections g)(cid := None)"
  by (auto simp: removeConnection_def split: option.splits)

lemma deliver_count:
  "fst (deliver channel payload cid (d, g)) = d + (if deliverable g cid then 1 else 0)"
proof (cases "connections g cid")
  case None
  then show ?thesis by (simp add: deliver_absent deliverable_def)
next
  case (Some conn)
  then show ?thesis
    by (cases "writeThrows (res conn)") (simp_all add: deliver_throws deliver_writes deliverable_def)
qed

lemma deliver_deliverable:
  "deliverable (snd (deliver channel payload cid (d, g))) cid' = deliverable g cid'"
proof (cases "connections g cid")
  case None
  then show ?thesis by (simp add: deliver_absent)
next
  case (Some conn)
  then show ?thesis
    by (cases "writeThrows (res conn)")
       (auto simp: deliver_throws deliver_writes deliverable_def removeConnection_connections)
qed

lemma fold_deliver_count:
  "fst (fold (deliver channel payload) cids (d, g)) = d + length (filter (deliverable g) cids)"
proof (induction cids arbitrary: d g)
  case Nil
  show ?case by simp
next
  case (Cons cid cids)
  obtain d' g' where step: "deliver channel payload cid (d, g) = (d', g')"
    by (cases "deliver channel payload cid (d, g)")
  have d': "d' = d + (if deliverable g cid then 1 else 0)"
    using deliver_count [of channel payload cid d g] step by simp
  have same: "deliverable g' = deliverable g"
    using deliver_deliverable [of channel payload cid d g] step by (simp add: fun_eq_iff)
  show ?case
    by (simp add: step Cons.IH d' same)
qed

lemma broadcastLog_single:
  assumes "logChannels g channel = Some [cid]" "connections g cid = Some conn"
    "\<not> writeThrows (res conn)"
  shows "broadcastLog channel payload g =
     (1,
      g\<lparr>world := snd (envelope_stamp (world g)),
        connections := (connections g)(cid \<mapsto>
          conn\<lparr>res := (res conn)\<lparr>chunks := chunks (res conn) @
                   [data_record channel payload (fst (fst (envelope_stamp (world g))))
                      (snd (fst (envelope_stamp (world g))))]\<rparr>,
               logsSent := logsSent conn + 1\<rparr>)\<rparr>)"
  using assms by (simp add: broadcastLog_def deliver_writes)

lemma deliver_appends:
  assumes "connections (snd (deliver channel payload cid (d, g))) k = Some c'"
  shows "\<exists>c new. connections g k = Some c \<and> chunks (res c') = chunks (res c) @ new \<and>
           (\<forall>x\<in>set new. \<exists>ts ident. x = data_record channel payload ts ident \<and>
                                     CHR 0x0A \<notin> set ident)"
proof (cases "connections g cid")
  case None
  with assms show ?thesis by (simp add: deliver_absent)
next
  case (Some conn)
  show ?thesis
  proof (cases "writeThrows (res conn)")
    case True
    with Some assms have "connections g k = Some c'"
      by (simp add: deliver_throws removeConnection_connections split: if_splits)
    then show ?thesis by simp
  next
    case False
    show ?thesis
    proof (cases "k = cid")
      case True
      with Some False assms
      have c': "c' = conn\<lparr>res := (res conn)\<lparr>chunks := chunks (res conn) @
                   [data_record channel payload (fst (fst (envelope_stamp (world g))))
                      (snd (fst (envelope_stamp (world g))))]\<rparr>,
               logsSent := logsSent conn + 1\<rparr>"
        by (simp add: deliver_writes)
      have "connections g k = Some conn \<and>
            chunks (res c') = chunks (res conn) @
              [data_record channel payload (fst (fst (envelope_stamp (world g))))
                 (snd (fst (envelope_stamp (world g))))] \<and>
            (\<forall>x\<in>set [data_record channel payload (fst (fst (envelope_stamp (world g))))
                 (snd (fst (envelope_stamp (world g))))].
               \<exists>ts ident. x = data_record channel payload ts ident \<and> CHR 0x0A \<notin> set ident)"
        using Some True c' newline_notin_ident [of "world g"] by auto
      then show ?thesis by blast
    next
      case neq: False
      with Some False assms have "connections g k = Some c'"
        by (simp add: deliver_writes)
      then show ?thesis by simp
    qed
  qed
qed

lemma fold_deliver_appends:
  "connections (snd (fold (deliver channel payload) cids (d, g))) k = Some c' \<Longrightarrow>
   \<exists>c new. connections g k = Some c \<and> chunks (res c') = chunks (res c) @ new \<and>
           (\<forall>x\<in>set new. \<exists>ts ident. x = data_record channel payload ts ident \<and>
                                     CHR 0x0A \<notin> set ident)"
proof (induction cids arbitrary: d g)
  case Nil
  then show ?case by simp
next
  case (Cons cid cids)
  obtain d1 g1 where step: "deliver channel payload cid (d, g) = (d1, g1)"
    by (cases "deliver channel payload cid (d, g)")
  from Cons.prems step
  have "connections (snd (fold (deliver channel payload) cids (d1, g1))) k = Some c'"
    by simp
  from Cons.IH [OF this] obtain c1 new1 where
    c1: "connections g1 k = Some c1" and
    ch1: "chunks (res c') = chunks (res c1) @ new1" and
    r1: "\<forall>x\<in>set new1. \<exists>ts ident. x = data_record channel payload ts ident \<and> CHR 0x0A \<notin> set ident"
    by blast
  from c1 step have "connections (snd (deliver channel payload cid (d, g))) k = Some c1"
    by simp
  from deliver_appends [OF this] obtain c new0 where
    c: "connections g k = Some c" and
    ch0: "chunks (res c1) = chunks (res c) @ new0" and
    r0: "\<forall>x\<in>set new0. \<exists>ts ident. x = data_record channel payload ts ident \<and> CHR 0x0A \<notin> set ident"
    by blast
  have "chunks (res c') = chunks (res c) @ (new0 @ new1)"
    using ch0 ch1 by simp
  moreover have "\<forall>x\<in>set (new0 @ new1). \<exists>ts ident. x = data_record channel payload ts ident \<and> CHR 0x0A \<notin> set ident"
    using r0 r1 by auto
  ultimately show ?case using c by blast
qed

lemma data_record_payload:
  "data_record channel (Some payload) ts ident =
     ''id: '' @ ident @ [CHR 0x0A] @ ''data: '' @
     JSON_stringify (JObj [(''channel'', JStr channel), (''data'', payload),
                           (''timestamp'', JNum ts), (''id'', JStr ident)]) @
     [CHR 0x0A, CHR 0x0A]"
  by (simp add: data_record_def logMessage_def object_literal_def)

text \<open>
  Claim C5, as the code has it. For a publish that carries a \<open>logData\<close> value, every
  chunk that \<open>broadcastLog\<close> appends to a subscriber's stream is \<open>id: <id>\<close> on one
  line, then \<open>data: <JSON>\<close> on one line, then a blank line, where the JSON object has
  exactly the members \<open>channel\<close>, \<open>data\<close>, \<open>timestamp\<close>, \<open>id\<close>, its \<open>id\<close> is
  the \<open>id:\<close> value and its \<open>data\<close> is the \<open>logData\<close> as given. A subscriber that
  is still registered afterwards had its earlier chunks left in place.
\<close>
theorem data_record_wire_form:
  assumes "connections (snd (broadcastLog channel (Some payload) g)) cid = Some c'"
  shows "\<exists>c new. connections g cid = Some c \<and> chunks (res c') = chunks (res c) @ new \<and>
           (\<forall>x\<in>set new. \<exists>ts ident.
              x = ''id: '' @ ident @ [CHR 0x0A] @ ''data: '' @
                  JSON_stringify (JObj [(''channel'', JStr channel), (''data'', payload),
                                        (''timestamp'', JNum ts), (''id'', JStr ident)]) @
                  [CHR 0x0A, CHR 0x0A] \<and>
              CHR 0x0A \<notin> set ident \<and>
              CHR 0x0A \<notin> set (JSON_stringify
                 (JObj [(''channel'', JStr channel), (''data'', payload),
                        (''timestamp'', JNum ts), (''id'', JStr ident)])))"
proof -
  from assms have "connections (snd (fold (deliver channel (Some payload))
      (case logChannels g channel of None \<Rightarrow> [] | Some s \<Rightarrow> s) (0, g))) cid = Some c'"
    by (simp add: broadcastLog_def)
  from fold_deliver_appends [OF this] obtain c new where
    c: "connections g cid = Some c" and
    ch: "chunks (res c') = chunks (res c) @ new" and
    r: "\<forall>x\<in>set new. \<exists>ts ident. x = data_record channel (Some payload) ts ident \<and> CHR 0x0A \<notin> set ident"
    by blast
  have "\<forall>x\<in>set new. \<exists>ts ident.
              x = ''id: '' @ ident @ [CHR 0x0A] @ ''data: '' @
                  JSON_stringify (JObj [(''channel'', JStr channel), (''data'', payload),
                                        (''timestamp'', JNum ts), (''id'', JStr ident)]) @
                  [CHR 0x0A, CHR 0x0A] \<and>
              CHR 0x0A \<notin> set ident \<and>
              CHR 0x0A \<notin> set (JSON_stringify
                 (JObj [(''channel'', JStr channel), (''data'', payload),
                        (''timestamp'', JNum ts), (''id'', JStr ident)]))"
  proof
    fix x assume "x \<in> set new"
    with r obtain ts ident where
      x: "x = data_record channel (Some payload) ts ident" and n: "CHR 0x0A \<notin> set ident"
      by blast
    show "\<exists>ts ident.
              x = ''id: '' @ ident @ [CHR 0x0A] @ ''data: '' @
                  JSON_stringify (JObj [(''channel'', JStr channel), (''data'', payload),
                                        (''timestamp'', JNum ts), (''id'', JStr ident)]) @
                  [CHR 0x0A, CHR 0x0A] \<and>
              CHR 0x0A \<notin> set ident \<and>
              CHR 0x0A \<notin> set (JSON_stringify
                 (JObj [(''channel'', JStr channel), (''data'', payload),
                        (''timestamp'', JNum ts), (''id'', JStr ident)]))"
      using x n newline_notin_JSON_stringify
      unfolding data_record_payload by blast
  qed
  with c ch show ?thesis by blast
qed

lemma handleLogsSSE_world:
  assumes "requestedChannels (channels_query req) = Inr rs"
  shows "world (snd (handleLogsSSE req g)) =
     snd (Date_now (snd (Date_now
       (snd (mintConnectionId (user_id (mock_user (x_user_id req))) (world g))))))"
  using assms
  by (simp add: handleLogsSSE_def Let_def res_write_def split: prod.splits)

lemma demo_channel_requested:
  "requestedChannels (channels_query
      (demo_subscribe\<lparr>channels_query := QStr ''logs:etl:workspace123:workflow456''\<rparr>)) =
     Inr [''logs:etl:workspace123:workflow456'']"
  by (simp add: requestedChannels_def)

lemma demo_channel_allowed:
  "getUserLogChannels (mock_user None) [''logs:etl:workspace123:workflow456''] =
     [''logs:etl:workspace123:workflow456'']"
  by (simp add: getUserLogChannels_filter channel_allowed_def nth_opt_def mock_user_def)

lemma demo_subscribed_world:
  "world demo_subscribed = demo_world\<lparr>clockReads := 4, randomReads := 1\<rparr>"
  by (simp add: demo_subscribed_def handleLogsSSE_world [OF demo_channel_requested]
      mintConnectionId_def new_gateway_def Date_now_def random_suffix_def Let_def demo_world_def)

lemma demo_subscribed_index:
  "logChannels demo_subscribed ''logs:etl:workspace123:workflow456'' = Some [''user123_1001_abc0'']"
  by (simp add: demo_subscribed_def handleLogsSSE_registered(2) [OF demo_channel_requested]
      demo_subscribe_fields demo_channel_allowed demo_connection_id new_gateway_fields
      subscribe_eq set_add_def)

lemma demo_subscribed_connection:
  "\<exists>conn. connections demo_subscribed ''user123_1001_abc0'' = Some conn \<and>
     \<not> writeThrows (res conn) \<and>
     chunks (res conn) =
       [handshake [''logs:etl:workspace123:workflow456''] ''user123'' ''user123_1001_abc0'' 1003]"
proof -
  have t: "fst (Date_now (snd (Date_now (snd (mintConnectionId ''user123'' (world (new_gateway demo_world))))))) = 1003"
    by (simp add: mintConnectionId_def new_gateway_def Date_now_def random_suffix_def demo_world_def Let_def)
  show ?thesis
    by (simp add: demo_subscribed_def handleLogsSSE_registered(3) [OF demo_channel_requested]
        demo_subscribe_fields demo_channel_allowed mock_user_None t
        demo_connection_id [simplified mock_user_None])
qed

lemma demo_stamp:
  "fst (envelope_stamp (demo_world\<lparr>clockReads := 4, randomReads := 1\<rparr>)) = (1004, ''log-1005-abc1'')"
  by (simp add: envelope_stamp_def Date_now_def random_suffix_def demo_world_def Let_def
      number_string_def digits10_lt digits10_ge base36_digit_def)

lemma demo_publish_channel:
  "publishChannel (demo_body\<lparr>logData := p\<rparr>) = ''logs:etl:workspace123:workflow456''"
  by (simp add: publishChannel_def demo_body_def truthy_def template_def)

theorem data_record_wire_form_witness:
  "\<exists>c'. connections (snd (broadcastLog ''logs:etl:workspace123:workflow456''
             (Some (JObj [(''level'', JStr ''INFO'')])) demo_subscribed)) ''user123_1001_abc0'' = Some c' \<and>
     (\<exists>c new. connections demo_subscribed ''user123_1001_abc0'' = Some c \<and>
        chunks (res c') = chunks (res c) @ new \<and>
        (\<forall>x\<in>set new. \<exists>ts ident.
              x = ''id: '' @ ident @ [CHR 0x0A] @ ''data: '' @
                  JSON_stringify (JObj [(''channel'', JStr ''logs:etl:workspace123:workflow456''),
                                        (''data'', JObj [(''level'', JStr ''INFO'')]),
                                        (''timestamp'', JNum ts), (''id'', JStr ident)]) @
                  [CHR 0x0A, CHR 0x0A] \<and>
              CHR 0x0A \<notin> set ident \<and>
              CHR 0x0A \<notin> set (JSON_stringify
                 (JObj [(''channel'', JStr ''logs:etl:workspace123:workflow456''),
                        (''data'', JObj [(''level'', JStr ''INFO'')]),
                        (''timestamp'', JNum ts), (''id'', JStr ident)]))))"
proof -
  from demo_subscribed_connection obtain conn where
    conn: "connections demo_subscribed ''user123_1001_abc0'' = Some conn" "\<not> writeThrows (res conn)"
    by blast
  have "\<exists>c'. connections (snd (broadcastLog ''logs:etl:workspace123:workflow456''
             (Some (JObj [(''level'', JStr ''INFO'')])) demo_subscribed)) ''user123_1001_abc0'' = Some c'"
    by (simp add: broadcastLog_single [OF demo_subscribed_index conn])
  then obtain c' where c': "connections (snd (broadcastLog ''logs:etl:workspace123:workflow456''
             (Some (JObj [(''level'', JStr ''INFO'')])) demo_subscribed)) ''user123_1001_abc0'' = Some c'"
    by blast
  from data_record_wire_form [OF c'] c' show ?thesis by blast
qed

text \<open>
  A publish whose body has no \<open>logData\<close> is accepted, and the record written to the
  subscriber has a JSON object of three members: \<open>JSON.stringify\<close> leaves out \<open>data\<close>,
  whose value is \<open>undefined\<close>.
\<close>

theorem missing_logData_counterexample:
  "logData (body (demo_publish\<lparr>body := demo_body\<lparr>logData := None\<rparr>\<rparr>)) = None \<and>
   status (fst (handleLogsPublish (demo_publish\<lparr>body := demo_body\<lparr>logData := None\<rparr>\<rparr>) demo_subscribed)) = 200 \<and>
   map_option (\<lambda>c. drop 1 (chunks (res c)))
     (connections (snd (handleLogsPublish (demo_publish\<lparr>body := demo_body\<lparr>logData := None\<rparr>\<rparr>)
        demo_subscribed)) ''user123_1001_abc0'') =
     Some [''id: log-1005-abc1'' @ [CHR 0x0A] @ ''data: '' @
           JSON_stringify (JObj [(''channel'', JStr ''logs:etl:workspace123:workflow456''),
                                 (''timestamp'', JNum 1004),
                                 (''id'', JStr ''log-1005-abc1'')]) @
           [CHR 0x0A, CHR 0x0A]]"
proof -
  from demo_subscribed_connection obtain conn where
    conn: "connections demo_subscribed ''user123_1001_abc0'' = Some conn" "\<not> writeThrows (res conn)"
      "chunks (res conn) =
         [handshake [''logs:etl:workspace123:workflow456''] ''user123'' ''user123_1001_abc0'' 1003]"
    by blast
  have v: "validateLogPublisher (x_service_token (demo_publish\<lparr>body := demo_body\<lparr>logData := None\<rparr>\<rparr>))
      (service (body (demo_publish\<lparr>body := demo_body\<lparr>logData := None\<rparr>\<rparr>)))"
    using etl_token_accepted by (simp add: demo_publish_def demo_body_def)
  have b: "body (demo_publish\<lparr>body := demo_body\<lparr>logData := None\<rparr>\<rparr>) = demo_body\<lparr>logData := None\<rparr>"
    by simp
  have l: "logData (demo_body\<lparr>logData := None\<rparr>) = None" by simp
  show ?thesis
    by (simp only: handleLogsPublish_accepted [OF v] b l demo_publish_channel Let_def
          broadcastLog_single [OF demo_subscribed_index conn(1,2)] demo_subscribed_world demo_stamp)
       (simp add: conn(3) data_record_def logMessage_def object_literal_def)
qed

lemma demo_publish_accepted:
  "validateLogPublisher (x_service_token demo_publish) (service (body demo_publish))"
  using etl_token_accepted by (simp add: demo_publish_def demo_body_def)

lemma demo_publish_channel_plain:
  "publishChannel (body demo_publish) = ''logs:etl:workspace123:workflow456''"
  by (simp add: publishChannel_def demo_publish_def demo_body_def truthy_def template_def)

lemma demo_publish_single:
  assumes "logChannels g ''logs:etl:workspace123:workflow456'' = Some [cid]"
    and "connections g cid = Some conn" and "\<not> writeThrows (res conn)"
  shows "logChannels (snd (handleLogsPublish demo_publish g)) ''logs:etl:workspace123:workflow456'' = Some [cid]"
    and "\<exists>conn'. connections (snd (handleLogsPublish demo_publish g)) cid = Some conn' \<and>
           \<not> writeThrows (res conn') \<and>
           length (chunks (res conn')) = Suc (length (chunks (res conn)))"
    and "json_member (reply (fst (handleLogsPublish demo_publish g))) ''delivered'' = Some (JNum 1)"
  using assms
  by (simp_all add: handleLogsPublish_accepted [OF demo_publish_accepted] demo_publish_channel_plain
      Let_def broadcastLog_single [OF assms] json_member_def)

lemma demo_publish_repeated:
  "logChannels (((\<lambda>g. snd (handleLogsPublish demo_publish g)) ^^ n) demo_subscribed)
      ''logs:etl:workspace123:workflow456'' = Some [''user123_1001_abc0''] \<and>
   (\<exists>conn. connections (((\<lambda>g. snd (handleLogsPublish demo_publish g)) ^^ n) demo_subscribed)
              ''user123_1001_abc0'' = Some conn \<and>
      \<not> writeThrows (res conn) \<and> length (chunks (res conn)) = Suc n)"
proof (induction n)
  case 0
  show ?case using demo_subscribed_index demo_subscribed_connection by auto
next
  case (Suc n)
  then obtain conn where
    i: "logChannels (((\<lambda>g. snd (handleLogsPublish demo_publish g)) ^^ n) demo_subscribed)
      ''logs:etl:workspace123:workflow456'' = Some [''user123_1001_abc0'']" and
    c: "connections (((\<lambda>g. snd (handleLogsPublish demo_publish g)) ^^ n) demo_subscribed)
              ''user123_1001_abc0'' = Some conn" and
    w: "\<not> writeThrows (res conn)" and
    l: "length (chunks (res conn)) = Suc n"
    by blast
  show ?case
    using demo_publish_single(1,2) [OF i c w] l by auto
qed

text \<open>
  After 256 publishes to a subscriber (its stream then holds the handshake and 256 data
  records), the next publish is written as well and reports \<open>delivered: 1\<close>.
\<close>

theorem no_queue_bound_counterexample:
  "map_option (length \<circ> chunks \<circ> res)
     (connections (((\<lambda>g. snd (handleLogsPublish demo_publish g)) ^^ 256) demo_subscribed)
        ''user123_1001_abc0'') = Some 257 \<and>
   json_member (reply (fst (handleLogsPublish demo_publish
     (((\<lambda>g. snd (handleLogsPublish demo_publish g)) ^^ 256) demo_subscribed)))) ''delivered'' =
     Some (JNum 1) \<and>
   map_option (length \<circ> chunks \<circ> res)
     (connections (snd (handleLogsPublish demo_publish
        (((\<lambda>g. snd (handleLogsPublish demo_publish g)) ^^ 256) demo_subscribed)))
        ''user123_1001_abc0'') = Some 258"
proof -
  from demo_publish_repeated [of 256] obtain conn where
    i: "logChannels (((\<lambda>g. snd (handleLogsPublish demo_publish g)) ^^ 256) demo_subscribed)
      ''logs:etl:workspace123:workflow456'' = Some [''user123_1001_abc0'']" and
    c: "connections (((\<lambda>g. snd (handleLogsPublish demo_publish g)) ^^ 256) demo_subscribed)
              ''user123_1001_abc0'' = Some conn" and
    w: "\<not> writeThrows (res conn)" and
    l: "length (chunks (res conn)) = Suc 256"
    by blast
  from demo_publish_single(2) [OF i c w] obtain conn' where
    c': "connections (snd (handleLogsPublish demo_publish
        (((\<lambda>g. snd (handleLogsPublish demo_publish g)) ^^ 256) demo_subscribed)))
        ''user123_1001_abc0'' = Some conn'" and
    l': "length (chunks (res conn')) = Suc (length (chunks (res conn)))"
    by blast
  show ?thesis
    using demo_publish_single(3) [OF i c w] c c' l l' by simp
qed

subsection \<open>The reverse index\<close>

lemma index_exact_world [simp]: "index_exact (g\<lparr>world := w\<rparr>) = index_exact g"
  by (simp add: index_exact_def subscribers_of_def)

lemma index_exact_stats [simp]: "index_exact (g\<lparr>stats := s\<rparr>) = index_exact g"
  by (simp add: index_exact_def subscribers_of_def)

lemma index_exact_same_channels:
  assumes "connections g cid = Some c" and "channels c' = channels c"
  shows "index_exact (g\<lparr>connections := (connections g)(cid \<mapsto> c')\<rparr>) = index_exact g"
proof -
  have "{k. \<exists>x. ((connections g)(cid \<mapsto> c')) k = Some x \<and> channel \<in> set (channels x)} =
        {k. \<exists>x. connections g k = Some x \<and> channel \<in> set (channels x)}" for channel
    using assms by auto
  then show ?thesis by (simp add: index_exact_def subscribers_of_def)
qed

lemma index_exact_channels_cong:
  assumes "\<And>k. map_option channels (connections g' k) = map_option channels (connections g k)"
    and "logChannels g' = logChannels g"
  shows "index_exact g' = index_exact g"
proof -
  have "(\<exists>x. connections g' k = Some x \<and> channel \<in> set (channels x)) =
        (\<exists>x. connections g k = Some x \<and> channel \<in> set (channels x))" for k channel
    using assms(1) [of k] by (cases "connections g' k"; cases "connections g k") auto
  then show ?thesis by (simp add: index_exact_def subscribers_of_def assms(2))
qed

lemma removeAll_Nil_D: "removeAll x xs = [] \<Longrightarrow> y \<in> set xs \<Longrightarrow> y = x"
  by (induction xs) (auto split: if_splits)

lemma index_exact_new_gateway: "index_exact (new_gateway w)"
  by (simp add: index_exact_def subscribers_of_def new_gateway_fields)

lemma removeConnection_absent:
  "connections g cid = None \<Longrightarrow> removeConnection cid g = g"
  by (simp add: removeConnection_def)

lemma removeConnection_logChannels:
  "connections g cid = Some conn \<Longrightarrow>
   logChannels (removeConnection cid g) =
     (\<lambda>ch. if ch \<in> set (channels conn) then
              (case logChannels g ch of None \<Rightarrow> None
               | Some s \<Rightarrow> if set_delete cid s = [] then None else Some (set_delete cid s))
            else logChannels g ch)"
  by (simp add: removeConnection_def foldl_unsubscribe)

lemma index_exact_removeConnection:
  assumes "index_exact g"
  shows "index_exact (removeConnection cid g)"
proof (cases "connections g cid")
  case None
  with assms show ?thesis by (simp add: removeConnection_absent)
next
  case (Some conn)
  have subs: "set (subscribers_of g ch) = {k. \<exists>c. connections g k = Some c \<and> ch \<in> set (channels c)}" for ch
    using assms by (simp add: index_exact_def)
  have nonempty: "logChannels g ch \<noteq> Some []" for ch
    using assms by (simp add: index_exact_def)
  have members: "set (subscribers_of (removeConnection cid g) ch) = set (subscribers_of g ch) - {cid}" for ch
  proof (cases "ch \<in> set (channels conn)")
    case True
    then show ?thesis
      by (auto simp: subscribers_of_def removeConnection_logChannels [OF Some] set_delete_def
          split: option.splits if_splits dest: removeAll_Nil_D)
  next
    case False
    then have "cid \<notin> set (subscribers_of g ch)" using subs [of ch] Some by auto
    with False show ?thesis
      by (simp add: subscribers_of_def removeConnection_logChannels [OF Some])
  qed
  have "set (subscribers_of (removeConnection cid g) ch) =
        {k. \<exists>c. connections (removeConnection cid g) k = Some c \<and> ch \<in> set (channels c)}" for ch
    unfolding members subs by (auto simp: removeConnection_connections)
  moreover have "logChannels (removeConnection cid g) ch \<noteq> Some []" for ch
    using nonempty [of ch]
    by (auto simp: removeConnection_logChannels [OF Some] split: option.splits)
  ultimately show ?thesis by (simp add: index_exact_def)
qed

lemma index_exact_deliver:
  assumes "index_exact g"
  shows "index_exact (snd (deliver channel payload cid (d, g)))"
proof (cases "connections g cid")
  case None
  with assms show ?thesis by (simp add: deliver_absent)
next
  case (Some conn)
  show ?thesis
  proof (cases "writeThrows (res conn)")
    case True
    have "index_exact (g\<lparr>world := snd (envelope_stamp (world g))\<rparr>)" using assms by simp
    then show ?thesis
      using Some True by (simp add: deliver_throws index_exact_removeConnection)
  next
    case False
    have "index_exact (snd (deliver channel payload cid (d, g))) = index_exact g"
      using Some False by (intro index_exact_channels_cong) (simp_all add: deliver_writes)
    with assms show ?thesis by simp
  qed
qed

lemma index_exact_fold_deliver:
  "index_exact g \<Longrightarrow> index_exact (snd (fold (deliver channel payload) cids (d, g)))"
proof (induction cids arbitrary: d g)
  case Nil
  then show ?case by simp
next
  case (Cons cid cids)
  obtain d1 g1 where step: "deliver channel payload cid (d, g) = (d1, g1)"
    by (cases "deliver channel payload cid (d, g)")
  with index_exact_deliver [OF Cons.prems, of channel payload cid d] have "index_exact g1" by simp
  from Cons.IH [OF this] show ?case by (simp add: step)
qed

lemma index_exact_broadcastLog:
  "index_exact g \<Longrightarrow> index_exact (snd (broadcastLog channel payload g))"
  by (simp add: broadcastLog_def index_exact_fold_deliver)

lemma index_exact_handleLogsPublish:
  assumes "index_exact g"
  shows "index_exact (snd (handleLogsPublish req g))"
proof (cases "validateLogPublisher (x_service_token req) (service (body req))")
  case True
  then show ?thesis
    using index_exact_broadcastLog [OF assms]
    by (simp add: handleLogsPublish_accepted Let_def)
next
  case False
  with assms show ?thesis by (simp add: handleLogsPublish_rejected)
qed

lemma index_exact_handleLogsSSE:
  assumes "index_exact g"
    and fresh: "connections g (fst (mintConnectionId (user_id (mock_user (x_user_id req))) (world g))) = None"
  shows "index_exact (snd (handleLogsSSE req g))"
proof (cases "requestedChannels (channels_query req)")
  case (Inl e)
  with assms show ?thesis by (simp add: handleLogsSSE_TypeError_state)
next
  case (Inr rs)
  have subs: "set (subscribers_of g ch) = {k. \<exists>c. connections g k = Some c \<and> ch \<in> set (channels c)}" for ch
    using assms(1) by (simp add: index_exact_def)
  have nonempty: "logChannels g ch \<noteq> Some []" for ch
    using assms(1) by (simp add: index_exact_def)
  have "set (subscribers_of (snd (handleLogsSSE req g)) ch) =
        {k. \<exists>c. connections (snd (handleLogsSSE req g)) k = Some c \<and> ch \<in> set (channels c)}" for ch
    using subs [of ch] fresh
    by (auto simp: subscribers_of_def handleLogsSSE_registered(2,3) [OF Inr] foldl_subscribe
        set_set_add split: option.splits if_splits)
  moreover have "logChannels (snd (handleLogsSSE req g)) ch \<noteq> Some []" for ch
  proof (cases "logChannels g ch")
    case None
    then show ?thesis
      by (simp add: handleLogsSSE_registered(2) [OF Inr] foldl_subscribe set_add_def)
  next
    case (Some s)
    with nonempty [of ch] have "s \<noteq> []" by simp
    with Some show ?thesis
      by (simp add: handleLogsSSE_registered(2) [OF Inr] foldl_subscribe set_add_def)
  qed
  ultimately show ?thesis by (simp add: index_exact_def)
qed

lemma reachable_fresh_index_exact: "reachable_fresh g \<Longrightarrow> index_exact g"
proof (induction rule: reachable_fresh.induct)
  case (start w)
  show ?case by (rule index_exact_new_gateway)
next
  case (subscribed g req)
  then show ?case by (simp add: index_exact_handleLogsSSE)
next
  case (published g preq)
  then show ?case by (simp add: index_exact_handleLogsPublish)
next
  case (broadcast g channel payload)
  then show ?case by (simp add: index_exact_broadcastLog)
next
  case (closed g cid)
  then show ?case by (simp add: index_exact_removeConnection)
next
  case (stream g cid c r)
  then show ?case by (simp add: index_exact_same_channels)
next
  case (environment g w)
  then show ?case by simp
qed

text \<open>
  Claim C6, as the code has it. In every state the gateway reaches while each minted
  connection id differs from the ids registered at that moment, the reverse index is exact:
  the entry of a channel holds precisely the ids of the registered connections whose
  \<open>channels\<close> contain it, and no entry is an empty set. After \<open>removeConnection\<close> the
  connection is in neither the connection map nor any entry of the reverse index.
\<close>
theorem reverse_index_exact:
  assumes "reachable_fresh g"
  shows "index_exact g \<and>
         connections (removeConnection cid g) cid = None \<and>
         (\<forall>channel. cid \<notin> set (subscribers_of (removeConnection cid g) channel))"
proof -
  have inv: "index_exact g" using assms by (rule reachable_fresh_index_exact)
  have gone: "connections (removeConnection cid g) cid = None"
    by (simp add: removeConnection_connections)
  have "index_exact (removeConnection cid g)" using inv by (rule index_exact_removeConnection)
  then have "set (subscribers_of (removeConnection cid g) channel) =
        {k. \<exists>c. connections (removeConnection cid g) k = Some c \<and> channel \<in> set (channels c)}" for channel
    by (simp add: index_exact_def)
  with gone have "cid \<notin> set (subscribers_of (removeConnection cid g) channel)" for channel
    by simp
  with inv gone show ?thesis by simp
qed

lemma demo_subscribed_reachable: "reachable_fresh demo_subscribed"
  unfolding demo_subscribed_def
  by (rule reachable_fresh.subscribed [OF reachable_fresh.start]) (simp add: new_gateway_fields)

theorem reverse_index_exact_witness:
  "reachable_fresh demo_subscribed \<and>
   index_exact demo_subscribed \<and>
   subscribers_of demo_subscribed ''logs:etl:workspace123:workflow456'' = [''user123_1001_abc0''] \<and>
   connections (removeConnection ''user123_1001_abc0'' demo_subscribed) ''user123_1001_abc0'' = None \<and>
   (\<forall>channel. ''user123_1001_abc0'' \<notin>
      set (subscribers_of (removeConnection ''user123_1001_abc0'' demo_subscribed) channel))"
  using reverse_index_exact [OF demo_subscribed_reachable, of "''user123_1001_abc0''"]
    demo_subscribed_reachable demo_subscribed_index
  by (simp add: subscribers_of_def)

lemma still_connection_id:
  "fst (mintConnectionId (user_id (mock_user None)) (world (new_gateway still_world))) = ''user123_1000_abcdefghi''"
  by (simp add: mintConnectionId_def mock_user_def truthy_def new_gateway_def Date_now_def
      random_suffix_def still_world_def Let_def number_string_def digits10_lt digits10_ge base36_digit_def)

lemma still_world_clock:
  "clock (snd (Date_now w)) = clock w" "entropy (snd (Date_now w)) = entropy w"
  "clock (snd (random_suffix w)) = clock w" "entropy (snd (random_suffix w)) = entropy w"
  by (simp_all add: Date_now_def random_suffix_def)

lemma etl_requested:
  "requestedChannels (channels_query
      (demo_subscribe\<lparr>channels_query := QStr ''logs:etl:workspace123''\<rparr>)) = Inr [''logs:etl:workspace123'']"
  by (simp add: requestedChannels_def)

lemma faas_requested:
  "requestedChannels (channels_query
      (demo_subscribe\<lparr>channels_query := QStr ''logs:faas:workspace456''\<rparr>)) = Inr [''logs:faas:workspace456'']"
  by (simp add: requestedChannels_def)

lemma etl_allowed:
  "getUserLogChannels (mock_user None) [''logs:etl:workspace123''] = [''logs:etl:workspace123'']"
  by (simp add: getUserLogChannels_filter channel_allowed_def nth_opt_def mock_user_def)

lemma faas_allowed:
  "getUserLogChannels (mock_user None) [''logs:faas:workspace456''] = [''logs:faas:workspace456'']"
  by (simp add: getUserLogChannels_filter channel_allowed_def nth_opt_def mock_user_def)

lemma still_first_world:
  "world (snd (handleLogsSSE (demo_subscribe\<lparr>channels_query := QStr ''logs:etl:workspace123''\<rparr>)
        (new_gateway still_world))) = still_world\<lparr>clockReads := 4, randomReads := 1\<rparr>"
  by (simp add: handleLogsSSE_world [OF etl_requested]
      mintConnectionId_def new_gateway_def Date_now_def random_suffix_def Let_def still_world_def)

lemma still_second_connection_id:
  "fst (mintConnectionId (user_id (mock_user None))
     (world (snd (handleLogsSSE (demo_subscribe\<lparr>channels_query := QStr ''logs:etl:workspace123''\<rparr>)
        (new_gateway still_world))))) = ''user123_1000_abcdefghi''"
  unfolding still_first_world
  by (simp add: mintConnectionId_def mock_user_def truthy_def Date_now_def
      random_suffix_def still_world_def Let_def number_string_def digits10_lt digits10_ge base36_digit_def)

lemma still_first_index:
  "logChannels (snd (handleLogsSSE (demo_subscribe\<lparr>channels_query := QStr ''logs:etl:workspace123''\<rparr>)
        (new_gateway still_world))) ''logs:etl:workspace123'' = Some [''user123_1000_abcdefghi'']"
  by (simp add: handleLogsSSE_registered(2) [OF etl_requested] demo_subscribe_fields etl_allowed
      still_connection_id new_gateway_fields subscribe_eq set_add_def)

lemma still_second_index:
  "logChannels
     (snd (handleLogsSSE (demo_subscribe\<lparr>channels_query := QStr ''logs:faas:workspace456''\<rparr>)
        (snd (handleLogsSSE (demo_subscribe\<lparr>channels_query := QStr ''logs:etl:workspace123''\<rparr>)
           (new_gateway still_world)))))
     ''logs:etl:workspace123'' = Some [''user123_1000_abcdefghi'']"
  by (simp add: handleLogsSSE_registered(2) [OF faas_requested] demo_subscribe_fields faas_allowed
      still_second_connection_id subscribe_eq still_first_index)

lemma still_second_connection:
  "map_option channels (connections
     (snd (handleLogsSSE (demo_subscribe\<lparr>channels_query := QStr ''logs:faas:workspace456''\<rparr>)
        (snd (handleLogsSSE (demo_subscribe\<lparr>channels_query := QStr ''logs:etl:workspace123''\<rparr>)
           (new_gateway still_world)))))
     ''user123_1000_abcdefghi'') = Some [''logs:faas:workspace456'']"
  by (simp add: handleLogsSSE_registered(3) [OF faas_requested] demo_subscribe_fields faas_allowed
      still_second_connection_id)

text \<open>
  Two subscribes of the same user in the same millisecond, whose random numbers differ but
  agree on the nine base-36 digits that \<open>substr(2, 9)\<close> keeps, mint the same connection id. The second connection replaces the
  first in the connection map, the first one's channel keeps the id in the reverse index,
  and \<open>removeConnection\<close> leaves that entry behind.
\<close>

theorem colliding_ids_counterexample:
  "subscribers_of
     (snd (handleLogsSSE (demo_subscribe\<lparr>channels_query := QStr ''logs:faas:workspace456''\<rparr>)
        (snd (handleLogsSSE (demo_subscribe\<lparr>channels_query := QStr ''logs:etl:workspace123''\<rparr>)
           (new_gateway still_world)))))
     ''logs:etl:workspace123'' = [''user123_1000_abcdefghi''] \<and>
   map_option channels (connections
     (snd (handleLogsSSE (demo_subscribe\<lparr>channels_query := QStr ''logs:faas:workspace456''\<rparr>)
        (snd (handleLogsSSE (demo_subscribe\<lparr>channels_query := QStr ''logs:etl:workspace123''\<rparr>)
           (new_gateway still_world)))))
     ''user123_1000_abcdefghi'') = Some [''logs:faas:workspace456''] \<and>
   \<not> index_exact
     (snd (handleLogsSSE (demo_subscribe\<lparr>channels_query := QStr ''logs:faas:workspace456''\<rparr>)
        (snd (handleLogsSSE (demo_subscribe\<lparr>channels_query := QStr ''logs:etl:workspace123''\<rparr>)
           (new_gateway still_world))))) \<and>
   connections (removeConnection ''user123_1000_abcdefghi''
     (snd (handleLogsSSE (demo_subscribe\<lparr>channels_query := QStr ''logs:faas:workspace456''\<rparr>)
        (snd (handleLogsSSE (demo_subscribe\<lparr>channels_query := QStr ''logs:etl:workspace123''\<rparr>)
           (new_gateway still_world)))))) ''user123_1000_abcdefghi'' = None \<and>
   subscribers_of (removeConnection ''user123_1000_abcdefghi''
     (snd (handleLogsSSE (demo_subscribe\<lparr>channels_query := QStr ''logs:faas:workspace456''\<rparr>)
        (snd (handleLogsSSE (demo_subscribe\<lparr>channels_query := QStr ''logs:etl:workspace123''\<rparr>)
           (new_gateway still_world))))))
     ''logs:etl:workspace123'' = [''user123_1000_abcdefghi'']"
proof -
  define g2 where "g2 =
     snd (handleLogsSSE (demo_subscribe\<lparr>channels_query := QStr ''logs:faas:workspace456''\<rparr>)
        (snd (handleLogsSSE (demo_subscribe\<lparr>channels_query := QStr ''logs:etl:workspace123''\<rparr>)
           (new_gateway still_world))))"
  have i2: "logChannels g2 ''logs:etl:workspace123'' = Some [''user123_1000_abcdefghi'']"
    unfolding g2_def by (rule still_second_index)
  have c2: "map_option channels (connections g2 ''user123_1000_abcdefghi'') = Some [''logs:faas:workspace456'']"
    unfolding g2_def by (rule still_second_connection)
  then obtain conn where conn: "connections g2 ''user123_1000_abcdefghi'' = Some conn"
    and chs: "channels conn = [''logs:faas:workspace456'']"
    by (cases "connections g2 ''user123_1000_abcdefghi''") simp_all
  have s2: "subscribers_of g2 ''logs:etl:workspace123'' = [''user123_1000_abcdefghi'']"
    by (simp add: subscribers_of_def i2)
  have ninv: "\<not> index_exact g2"
  proof
    assume "index_exact g2"
    then have "set (subscribers_of g2 ''logs:etl:workspace123'') =
      {cid. \<exists>c. connections g2 cid = Some c \<and> ''logs:etl:workspace123'' \<in> set (channels c)}"
      by (simp add: index_exact_def)
    moreover have "''user123_1000_abcdefghi'' \<in> set (subscribers_of g2 ''logs:etl:workspace123'')"
      by (simp add: s2)
    ultimately have "''user123_1000_abcdefghi'' \<in>
      {cid. \<exists>c. connections g2 cid = Some c \<and> ''logs:etl:workspace123'' \<in> set (channels c)}"
      by (rule subst)
    then have "''logs:etl:workspace123'' \<in> set (channels conn)"
      by (simp add: conn)
    then show False by (simp add: chs)
  qed
  have gone: "connections (removeConnection ''user123_1000_abcdefghi'' g2) ''user123_1000_abcdefghi'' = None"
    by (simp add: removeConnection_connections)
  have stale: "subscribers_of (removeConnection ''user123_1000_abcdefghi'' g2) ''logs:etl:workspace123'' =
      [''user123_1000_abcdefghi'']"
    by (simp add: subscribers_of_def removeConnection_logChannels [OF conn] chs i2)
  from s2 c2 ninv gone stale show ?thesis
    unfolding g2_def by (intro conjI)
qed

subsection \<open>The handshake on a gateway that has a subscriber\<close>

lemma other_requested:
  "requestedChannels (channels_query (demo_subscribe\<lparr>channels_query := QStr ''logs:etl:other''\<rparr>)) =
     Inr [''logs:etl:other'']"
  by (simp add: requestedChannels_def)

lemma other_filtered: "getUserLogChannels (mock_user None) [''logs:etl:other''] = []"
  by (simp add: getUserLogChannels_filter channel_allowed_def nth_opt_def mock_user_def)

lemma second_connection_id:
  "fst (mintConnectionId ''user123'' (world demo_subscribed)) = ''user123_1004_abc1''"
  by (simp add: demo_subscribed_world mintConnectionId_def Date_now_def
      random_suffix_def demo_world_def Let_def number_string_def digits10_lt digits10_ge base36_digit_def)

lemma demo_subscribed_clock:
  "clock (world demo_subscribed) (clockReads (world demo_subscribed) + 2) = 1006"
  by (simp add: demo_subscribed_world demo_world_def)

lemma new_gateway_clock:
  "clock (world (new_gateway demo_world)) (clockReads (world (new_gateway demo_world)) + 2) = 1003"
  by (simp add: new_gateway_def Date_now_def demo_world_def)

theorem handshake_first_record_witness:
  "fst (handleLogsSSE (demo_subscribe\<lparr>channels_query := QStr ''logs:etl:other''\<rparr>) demo_subscribed) =
     Returned \<and>
   (\<exists>c. connections (snd (handleLogsSSE (demo_subscribe\<lparr>channels_query := QStr ''logs:etl:other''\<rparr>)
              demo_subscribed)) ''user123_1004_abc1'' = Some c \<and>
      statusCode (res c) = 200 \<and>
      channels c = [] \<and>
      chunks (res c) =
        [''data: '' @
         JSON_stringify
           (JObj [(''type'', JStr ''connection''),
                  (''status'', JStr ''connected''),
                  (''channels'', JArr []),
                  (''userId'', JStr ''user123''),
                  (''connectionId'', JStr ''user123_1004_abc1''),
                  (''timestamp'', JNum 1006)]) @
         [CHR 0x0A, CHR 0x0A]]) \<and>
   fst (handleLogsSSE (demo_subscribe\<lparr>channels_query := QStr ''logs:etl:workspace123:workflow456''\<rparr>)
          (new_gateway demo_world)) = Returned \<and>
   (\<exists>c. connections (snd (handleLogsSSE
              (demo_subscribe\<lparr>channels_query := QStr ''logs:etl:workspace123:workflow456''\<rparr>)
              (new_gateway demo_world))) ''user123_1001_abc0'' = Some c \<and>
      statusCode (res c) = 200 \<and>
      channels c = [''logs:etl:workspace123:workflow456''] \<and>
      chunks (res c) =
        [''data: '' @
         JSON_stringify
           (JObj [(''type'', JStr ''connection''),
                  (''status'', JStr ''connected''),
                  (''channels'', JArr [JStr ''logs:etl:workspace123:workflow456'']),
                  (''userId'', JStr ''user123''),
                  (''connectionId'', JStr ''user123_1001_abc0''),
                  (''timestamp'', JNum 1003)]) @
         [CHR 0x0A, CHR 0x0A]]) \<and>
   fst (handleLogsSSE
          (demo_subscribe\<lparr>channels_query := QList [''logs:etl:workspace123:workflow456'']\<rparr>)
          demo_subscribed) = Threw \<and>
   connections (snd (handleLogsSSE
          (demo_subscribe\<lparr>channels_query := QList [''logs:etl:workspace123:workflow456'']\<rparr>)
          demo_subscribed)) = connections demo_subscribed"
proof -
  let ?other = "demo_subscribe\<lparr>channels_query := QStr ''logs:etl:other''\<rparr>"
  let ?demo = "demo_subscribe\<lparr>channels_query := QStr ''logs:etl:workspace123:workflow456''\<rparr>"
  let ?list = "demo_subscribe\<lparr>channels_query := QList [''logs:etl:workspace123:workflow456'']\<rparr>"
  have accepted: "fst (handleLogsSSE ?other demo_subscribed) = Returned"
    using handshake_first_record [of ?other demo_subscribed]
    by (simp add: demo_subscribe_fields)
  with handshake_first_record [of ?other demo_subscribed] obtain rs c where
    rs: "requestedChannels (channels_query ?other) = Inr rs" and
    c: "connections (snd (handleLogsSSE ?other demo_subscribed))
          (fst (mintConnectionId (user_id (mock_user (x_user_id ?other))) (world demo_subscribed))) = Some c"
       "statusCode (res c) = 200"
       "channels c = getUserLogChannels (mock_user (x_user_id ?other)) rs"
       "chunks (res c) =
             [''data: '' @
              JSON_stringify
                (JObj [(''type'', JStr ''connection''),
                       (''status'', JStr ''connected''),
                       (''channels'', JArr (map JStr (channels c))),
                       (''userId'', JStr (user_id (mock_user (x_user_id ?other)))),
                       (''connectionId'',
                          JStr (fst (mintConnectionId (user_id (mock_user (x_user_id ?other)))
                            (world demo_subscribed)))),
                       (''timestamp'', JNum (clock (world demo_subscribed)
                            (clockReads (world demo_subscribed) + 2)))]) @
              [CHR 0x0A, CHR 0x0A]]"
    by blast
  from rs have rs_eq: "rs = [''logs:etl:other'']" unfolding other_requested by simp
  have c1: "channels c = []"
    using c(3) by (simp add: rs_eq demo_subscribe_fields other_filtered)
  have a: "\<exists>c. connections (snd (handleLogsSSE ?other demo_subscribed)) ''user123_1004_abc1'' = Some c \<and>
      statusCode (res c) = 200 \<and>
      channels c = [] \<and>
      chunks (res c) =
        [''data: '' @
         JSON_stringify
           (JObj [(''type'', JStr ''connection''),
                  (''status'', JStr ''connected''),
                  (''channels'', JArr []),
                  (''userId'', JStr ''user123''),
                  (''connectionId'', JStr ''user123_1004_abc1''),
                  (''timestamp'', JNum 1006)]) @
         [CHR 0x0A, CHR 0x0A]]"
    using c(1,2,4) c1
    unfolding demo_subscribe_fields mock_user_None second_connection_id demo_subscribed_clock
    by (intro exI [of _ c]) simp
  have accepted': "fst (handleLogsSSE ?demo (new_gateway demo_world)) = Returned"
    using handshake_first_record [of ?demo "new_gateway demo_world"]
    by (simp add: demo_subscribe_fields)
  with handshake_first_record [of ?demo "new_gateway demo_world"] obtain rs' c' where
    rs': "requestedChannels (channels_query ?demo) = Inr rs'" and
    c': "connections (snd (handleLogsSSE ?demo (new_gateway demo_world)))
          (fst (mintConnectionId (user_id (mock_user (x_user_id ?demo))) (world (new_gateway demo_world)))) = Some c'"
       "statusCode (res c') = 200"
       "channels c' = getUserLogChannels (mock_user (x_user_id ?demo)) rs'"
       "chunks (res c') =
             [''data: '' @
              JSON_stringify
                (JObj [(''type'', JStr ''connection''),
                       (''status'', JStr ''connected''),
                       (''channels'', JArr (map JStr (channels c'))),
                       (''userId'', JStr (user_id (mock_user (x_user_id ?demo)))),
                       (''connectionId'',
                          JStr (fst (mintConnectionId (user_id (mock_user (x_user_id ?demo)))
                            (world (new_gateway demo_world))))),
                       (''timestamp'', JNum (clock (world (new_gateway demo_world))
                            (clockReads (world (new_gateway demo_world)) + 2)))]) @
              [CHR 0x0A, CHR 0x0A]]"
    by blast
  from rs' have rs'_eq: "rs' = [''logs:etl:workspace123:workflow456'']"
    unfolding demo_channel_requested by simp
  have c1': "channels c' = [''logs:etl:workspace123:workflow456'']"
    using c'(3) by (simp add: rs'_eq demo_subscribe_fields demo_channel_allowed)
  have b: "\<exists>c. connections (snd (handleLogsSSE ?demo (new_gateway demo_world))) ''user123_1001_abc0'' = Some c \<and>
      statusCode (res c) = 200 \<and>
      channels c = [''logs:etl:workspace123:workflow456''] \<and>
      chunks (res c) =
        [''data: '' @
         JSON_stringify
           (JObj [(''type'', JStr ''connection''),
                  (''status'', JStr ''connected''),
                  (''channels'', JArr [JStr ''logs:etl:workspace123:workflow456'']),
                  (''userId'', JStr ''user123''),
                  (''connectionId'', JStr ''user123_1001_abc0''),
                  (''timestamp'', JNum 1003)]) @
         [CHR 0x0A, CHR 0x0A]]"
    using c'(1,2,4) c1'
    unfolding demo_subscribe_fields mock_user_None demo_connection_id [simplified mock_user_None]
      new_gateway_clock
    by (intro exI [of _ c']) simp
  have l: "fst (handleLogsSSE ?list demo_subscribed) \<noteq> Returned \<and>
           connections (snd (handleLogsSSE ?list demo_subscribed)) = connections demo_subscribed"
    using handshake_first_record [of ?list demo_subscribed] by simp
  then have t: "fst (handleLogsSSE ?list demo_subscribed) = Threw"
    by (cases "fst (handleLogsSSE ?list demo_subscribed)") simp_all
  from accepted a accepted' b t l show ?thesis by (intro conjI) simp_all
qed

subsection \<open>What one fan-out does to the registry\<close>

lemma envelope_stamp_fst:
  "fst (envelope_stamp w) =
     (clock w (clockReads w),
      ''log-'' @ number_string (clock w (Suc (clockReads w))) @ ''-'' @
      take 9 (map base36_digit (entropy w (randomReads w))))"
  by (simp add: envelope_stamp_def Date_now_def random_suffix_def Let_def)

lemma envelope_stamp_snd:
  "clock (snd (envelope_stamp w)) = clock w"
  "entropy (snd (envelope_stamp w)) = entropy w"
  "clockReads (snd (envelope_stamp w)) = clockReads w + 2"
  "randomReads (snd (envelope_stamp w)) = randomReads w + 1"
  by (simp_all add: envelope_stamp_def Date_now_def random_suffix_def Let_def)

lemma removeConnection_world: "world (removeConnection cid g) = world g"
  by (simp add: removeConnection_def split: option.splits)

lemma deliver_world:
  "world (snd (deliver channel payload cid (d, g))) =
     (if connections g cid = None then world g else snd (envelope_stamp (world g)))"
proof (cases "connections g cid")
  case None
  then show ?thesis by (simp add: deliver_absent)
next
  case (Some conn)
  then show ?thesis
    by (cases "writeThrows (res conn)")
       (simp_all add: deliver_throws deliver_writes removeConnection_world)
qed

lemma deliver_world_grows:
  "clock (world (snd (deliver channel payload cid (d, g)))) = clock (world g) \<and>
   entropy (world (snd (deliver channel payload cid (d, g)))) = entropy (world g) \<and>
   clockReads (world g) \<le> clockReads (world (snd (deliver channel payload cid (d, g)))) \<and>
   randomReads (world g) \<le> randomReads (world (snd (deliver channel payload cid (d, g))))"
  by (simp add: deliver_world envelope_stamp_snd)

lemma fold_deliver_world_grows:
  "clock (world (snd (fold (deliver channel payload) cids (d, g)))) = clock (world g) \<and>
   entropy (world (snd (fold (deliver channel payload) cids (d, g)))) = entropy (world g) \<and>
   clockReads (world g) \<le> clockReads (world (snd (fold (deliver channel payload) cids (d, g)))) \<and>
   randomReads (world g) \<le> randomReads (world (snd (fold (deliver channel payload) cids (d, g))))"
proof (induction cids arbitrary: d g)
  case Nil
  show ?case by simp
next
  case (Cons cid cids)
  obtain d1 g1 where step: "deliver channel payload cid (d, g) = (d1, g1)"
    by (cases "deliver channel payload cid (d, g)")
  from deliver_world_grows [of channel payload cid d g] step
  have a: "clock (world g1) = clock (world g)" "entropy (world g1) = entropy (world g)"
    "clockReads (world g) \<le> clockReads (world g1)" "randomReads (world g) \<le> randomReads (world g1)"
    by simp_all
  from Cons.IH [of d1 g1] a show ?case by (simp add: step)
qed

lemma stamped_between_widen:
  assumes "stamped_between w1 w2 channel payload x"
    and "clock w1 = clock w0" "entropy w1 = entropy w0"
    and "clockReads w0 \<le> clockReads w1" "randomReads w0 \<le> randomReads w1"
    and "clockReads w2 \<le> clockReads w3" "randomReads w2 \<le> randomReads w3"
  shows "stamped_between w0 w3 channel payload x"
proof -
  from assms(1) obtain n m where
    n: "clockReads w1 \<le> n" "n < clockReads w2 - 1" and
    m: "randomReads w1 \<le> m" "m < randomReads w2" and
    x: "x = data_record channel payload (clock w1 n)
              (''log-'' @ number_string (clock w1 (Suc n)) @ ''-'' @
               take 9 (map base36_digit (entropy w1 m)))"
    by (auto simp: stamped_between_def)
  have n': "n \<in> {clockReads w0 ..< clockReads w3 - 1}" using n assms(4,6) by auto
  have m': "m \<in> {randomReads w0 ..< randomReads w3}" using m assms(5,7) by auto
  have "x = data_record channel payload (clock w0 n)
              (''log-'' @ number_string (clock w0 (Suc n)) @ ''-'' @
               take 9 (map base36_digit (entropy w0 m)))"
    using x assms(2,3) by simp
  with n' m' show ?thesis
    unfolding stamped_between_def by blast
qed

lemma stamped_between_step:
  "stamped_between w (snd (envelope_stamp w)) channel payload
     (data_record channel payload (fst (fst (envelope_stamp w))) (snd (fst (envelope_stamp w))))"
  unfolding stamped_between_def
  by (rule bexI [of _ "clockReads w"], rule bexI [of _ "randomReads w"])
     (simp_all add: envelope_stamp_fst envelope_stamp_snd)

lemma deliver_other:
  "k \<noteq> cid \<Longrightarrow> connections (snd (deliver channel payload cid (d, g))) k = connections g k"
proof (cases "connections g cid")
  case None
  then show ?thesis by (simp add: deliver_absent)
next
  case (Some conn)
  assume "k \<noteq> cid"
  with Some show ?thesis
    by (cases "writeThrows (res conn)")
       (simp_all add: deliver_throws deliver_writes removeConnection_connections)
qed

lemma fold_deliver_unvisited:
  "k \<notin> set cids \<Longrightarrow>
   connections (snd (fold (deliver channel payload) cids (d, g))) k = connections g k"
proof (induction cids arbitrary: d g)
  case Nil
  show ?case by simp
next
  case (Cons cid cids)
  obtain d1 g1 where step: "deliver channel payload cid (d, g) = (d1, g1)"
    by (cases "deliver channel payload cid (d, g)")
  from Cons.prems have "k \<noteq> cid" "k \<notin> set cids" by auto
  with deliver_other [of k cid channel payload d g] step Cons.IH [of d1 g1]
  show ?case by simp
qed

lemma fold_deliver_removed:
  "connections g k = None \<or> (\<exists>c. connections g k = Some c \<and> writeThrows (res c) \<and> k \<in> set cids) \<Longrightarrow>
   connections (snd (fold (deliver channel payload) cids (d, g))) k = None"
proof (induction cids arbitrary: d g)
  case Nil
  then show ?case by auto
next
  case (Cons cid cids)
  obtain d1 g1 where step: "deliver channel payload cid (d, g) = (d1, g1)"
    by (cases "deliver channel payload cid (d, g)")
  have "connections g1 k = None \<or>
        (\<exists>c. connections g1 k = Some c \<and> writeThrows (res c) \<and> k \<in> set cids)"
  proof (cases "k = cid")
    case True
    from Cons.prems show ?thesis
    proof
      assume "connections g k = None"
      with True step show ?thesis by (simp add: deliver_absent)
    next
      assume "\<exists>c. connections g k = Some c \<and> writeThrows (res c) \<and> k \<in> set (cid # cids)"
      then obtain c where c: "connections g cid = Some c" "writeThrows (res c)"
        using True by blast
      have "connections (snd (deliver channel payload cid (d, g))) cid = None"
        by (simp add: deliver_throws [OF c] removeConnection_connections)
      with True step show ?thesis by simp
    qed
  next
    case False
    with deliver_other [of k cid channel payload d g] step
    have "connections g1 k = connections g k" by simp
    with Cons.prems False show ?thesis by auto
  qed
  from Cons.IH [OF this, of d1] show ?case by (simp add: step)
qed

lemma fold_deliver_writable:
  "connections g k = Some c \<Longrightarrow> \<not> writeThrows (res c) \<Longrightarrow>
   \<exists>new. connections (snd (fold (deliver channel payload) cids (d, g))) k =
            Some (c\<lparr>res := (res c)\<lparr>chunks := chunks (res c) @ new\<rparr>,
                    logsSent := logsSent c + length new\<rparr>) \<and>
         length new = count_list cids k \<and>
         (\<forall>x\<in>set new. stamped_between (world g)
            (world (snd (fold (deliver channel payload) cids (d, g)))) channel payload x)"
proof (induction cids arbitrary: d g c)
  case Nil
  then show ?case by (intro exI [of _ "[]"]) simp
next
  case (Cons cid cids)
  obtain d1 g1 where step: "deliver channel payload cid (d, g) = (d1, g1)"
    by (cases "deliver channel payload cid (d, g)")
  let ?g' = "snd (fold (deliver channel payload) cids (d1, g1))"
  have fin: "snd (fold (deliver channel payload) (cid # cids) (d, g)) = ?g'"
    by (simp add: step)
  have w01: "clock (world g1) = clock (world g)" "entropy (world g1) = entropy (world g)"
    "clockReads (world g) \<le> clockReads (world g1)" "randomReads (world g) \<le> randomReads (world g1)"
    using deliver_world_grows [of channel payload cid d g] step by simp_all
  have w12: "clockReads (world g1) \<le> clockReads (world ?g')"
    "randomReads (world g1) \<le> randomReads (world ?g')"
    using fold_deliver_world_grows [of channel payload cids d1 g1] by simp_all
  show ?case
  proof (cases "k = cid")
    case True
    let ?r = "data_record channel payload (fst (fst (envelope_stamp (world g))))
                (snd (fst (envelope_stamp (world g))))"
    let ?c1 = "c\<lparr>res := (res c)\<lparr>chunks := chunks (res c) @ [?r]\<rparr>, logsSent := logsSent c + 1\<rparr>"
    from Cons.prems True have c: "connections g cid = Some c" by simp
    have g1: "g1 = g\<lparr>world := snd (envelope_stamp (world g)),
                      connections := (connections g)(cid \<mapsto> ?c1)\<rparr>"
      using deliver_writes [OF c Cons.prems(2), of channel payload d] step by simp
    have c1: "connections g1 k = Some ?c1" using True by (simp add: g1)
    have nt: "\<not> writeThrows (res ?c1)" using Cons.prems(2) by simp
    from Cons.IH [OF c1 nt, of d1] obtain new1 where
      n1: "connections ?g' k =
            Some (?c1\<lparr>res := (res ?c1)\<lparr>chunks := chunks (res ?c1) @ new1\<rparr>,
                       logsSent := logsSent ?c1 + length new1\<rparr>)" and
      l1: "length new1 = count_list cids k" and
      s1: "\<forall>x\<in>set new1. stamped_between (world g1) (world ?g') channel payload x"
      by blast
    have first: "stamped_between (world g) (world ?g') channel payload ?r"
    proof (rule stamped_between_widen [OF stamped_between_step [of "world g" channel payload]])
      show "clockReads (snd (envelope_stamp (world g))) \<le> clockReads (world ?g')"
        using w12(1) by (simp add: g1)
      show "randomReads (snd (envelope_stamp (world g))) \<le> randomReads (world ?g')"
        using w12(2) by (simp add: g1)
    qed simp_all
    have rest: "\<forall>x\<in>set new1. stamped_between (world g) (world ?g') channel payload x"
      using s1 w01 by (auto intro: stamped_between_widen)
    have "connections ?g' k =
            Some (c\<lparr>res := (res c)\<lparr>chunks := chunks (res c) @ (?r # new1)\<rparr>,
                    logsSent := logsSent c + length (?r # new1)\<rparr>) \<and>
          length (?r # new1) = count_list (cid # cids) k \<and>
          (\<forall>x\<in>set (?r # new1). stamped_between (world g) (world ?g') channel payload x)"
      using n1 l1 first rest True by simp
    then show ?thesis unfolding fin by blast
  next
    case False
    with deliver_other [of k cid channel payload d g] step Cons.prems(1)
    have c1: "connections g1 k = Some c" by simp
    from Cons.IH [OF c1 Cons.prems(2), of d1] obtain new1 where
      n1: "connections ?g' k =
            Some (c\<lparr>res := (res c)\<lparr>chunks := chunks (res c) @ new1\<rparr>,
                    logsSent := logsSent c + length new1\<rparr>)" and
      l1: "length new1 = count_list cids k" and
      s1: "\<forall>x\<in>set new1. stamped_between (world g1) (world ?g') channel payload x"
      by blast
    have rest: "\<forall>x\<in>set new1. stamped_between (world g) (world ?g') channel payload x"
      using s1 w01 by (auto intro: stamped_between_widen)
    have "connections ?g' k =
            Some (c\<lparr>res := (res c)\<lparr>chunks := chunks (res c) @ new1\<rparr>,
                    logsSent := logsSent c + length new1\<rparr>) \<and>
          length new1 = count_list (cid # cids) k \<and>
          (\<forall>x\<in>set new1. stamped_between (world g) (world ?g') channel payload x)"
      using n1 l1 rest False by simp
    then show ?thesis unfolding fin by blast
  qed
qed

lemma removeConnection_subscribers:
  assumes "connections g cid = Some conn"
  shows "set (subscribers_of (removeConnection cid g) ch) =
           set (subscribers_of g ch) - (if ch \<in> set (channels conn) then {cid} else {})"
  by (auto simp: subscribers_of_def removeConnection_logChannels [OF assms] set_delete_def
      split: option.splits if_splits dest: removeAll_Nil_D)

lemma deliver_subscribers:
  "set (subscribers_of (snd (deliver channel payload cid (d, g))) ch) =
     set (subscribers_of g ch) -
       (if raising g cid \<and> ch \<in> set (channels_of g cid) then {cid} else {})"
proof (cases "connections g cid")
  case None
  then show ?thesis by (simp add: deliver_absent raising_def)
next
  case (Some conn)
  show ?thesis
  proof (cases "writeThrows (res conn)")
    case True
    have "connections (g\<lparr>world := snd (envelope_stamp (world g))\<rparr>) cid = Some conn"
      using Some by simp
    from removeConnection_subscribers [OF this, of ch] Some True show ?thesis
      by (simp add: deliver_throws raising_def channels_of_def subscribers_of_def)
  next
    case False
    with Some show ?thesis
      by (simp add: deliver_writes raising_def subscribers_of_def)
  qed
qed

lemma deliver_raising:
  "raising (snd (deliver channel payload cid (d, g))) k \<and>
     ch \<in> set (channels_of (snd (deliver channel payload cid (d, g))) k) \<longleftrightarrow>
   k \<noteq> cid \<and> raising g k \<and> ch \<in> set (channels_of g k)"
proof (cases "k = cid")
  case False
  then show ?thesis
    using deliver_other [of k cid channel payload d g] by (simp add: raising_def channels_of_def)
next
  case True
  show ?thesis
  proof (cases "connections g cid")
    case None
    with True show ?thesis by (simp add: deliver_absent raising_def)
  next
    case (Some conn)
    with True show ?thesis
      by (cases "writeThrows (res conn)")
         (simp_all add: deliver_throws deliver_writes raising_def removeConnection_connections)
  qed
qed

lemma fold_deliver_subscribers:
  "set (subscribers_of (snd (fold (deliver channel payload) cids (d, g))) ch) =
     set (subscribers_of g ch) -
       {cid \<in> set cids. raising g cid \<and> ch \<in> set (channels_of g cid)}"
proof (induction cids arbitrary: d g)
  case Nil
  show ?case by simp
next
  case (Cons cid cids)
  obtain d1 g1 where step: "deliver channel payload cid (d, g) = (d1, g1)"
    by (cases "deliver channel payload cid (d, g)")
  have s1: "set (subscribers_of g1 ch) =
     set (subscribers_of g ch) -
       (if raising g cid \<and> ch \<in> set (channels_of g cid) then {cid} else {})"
    using deliver_subscribers [of channel payload cid d g ch] step by simp
  have r1: "raising g1 k \<and> ch \<in> set (channels_of g1 k) \<longleftrightarrow>
      k \<noteq> cid \<and> raising g k \<and> ch \<in> set (channels_of g k)" for k
    using deliver_raising [of channel payload cid d g k ch] step by simp
  have "set (subscribers_of (snd (fold (deliver channel payload) cids (d1, g1))) ch) =
     set (subscribers_of g1 ch) - {k \<in> set cids. raising g1 k \<and> ch \<in> set (channels_of g1 k)}"
    by (rule Cons.IH)
  also have "\<dots> = set (subscribers_of g ch) -
       {k \<in> set (cid # cids). raising g k \<and> ch \<in> set (channels_of g k)}"
    unfolding s1 using r1 by auto
  finally show ?case by (simp add: step)
qed

lemma count_list_absent: "k \<notin> set xs \<Longrightarrow> count_list xs k = 0"
  by (induction xs) auto

text \<open>
  Claim C8, as the code has it. The gateway keeps no bounded send queue and has no
  \<open>dropped_full\<close> outcome. \<open>broadcastLog\<close> hands the envelope to \<open>res.write\<close> of
  every registered subscriber of the channel, whatever was written to it before:
  \<^item> \<open>delivered\<close> is the number of subscribers of the channel that are registered and whose
    write does not raise;
  \<^item> such a subscriber keeps its connection, with one data record of this channel and payload
    appended to its stream per membership in the subscriber list, stamped from the clock
    and the random source during this call, and \<open>logsSent\<close> raised by as much;
  \<^item> a subscriber of the channel whose write raises is unregistered: it leaves the
    connection map and the reverse-index entries of its own channels;
  \<^item> every other connection and every other index entry is left as it was.
\<close>
theorem delivered_counts_every_writable_subscriber:
  "fst (broadcastLog channel payload g) =
     length (filter (deliverable g) (subscribers_of g channel)) \<and>
   (\<forall>cid c. connections g cid = Some c \<longrightarrow>
      (if cid \<in> set (subscribers_of g channel) \<and> writeThrows (res c)
       then connections (snd (broadcastLog channel payload g)) cid = None
       else (\<exists>new. connections (snd (broadcastLog channel payload g)) cid =
                     Some (c\<lparr>res := (res c)\<lparr>chunks := chunks (res c) @ new\<rparr>,
                             logsSent := logsSent c + length new\<rparr>) \<and>
                   length new = count_list (subscribers_of g channel) cid \<and>
                   (\<forall>x\<in>set new. stamped_between (world g)
                      (world (snd (broadcastLog channel payload g))) channel payload x)))) \<and>
   (\<forall>cid. connections g cid = None \<longrightarrow>
      connections (snd (broadcastLog channel payload g)) cid = None) \<and>
   (\<forall>ch. set (subscribers_of (snd (broadcastLog channel payload g)) ch) =
      set (subscribers_of g ch) -
        {cid \<in> set (subscribers_of g channel). raising g cid \<and> ch \<in> set (channels_of g cid)})"
proof -
  let ?subs = "subscribers_of g channel"
  have b: "broadcastLog channel payload g = fold (deliver channel payload) ?subs (0, g)"
    by (simp add: broadcastLog_def subscribers_of_def)
  have count: "fst (broadcastLog channel payload g) = length (filter (deliverable g) ?subs)"
    by (simp add: b fold_deliver_count)
  have conn: "if cid \<in> set ?subs \<and> writeThrows (res c)
       then connections (snd (broadcastLog channel payload g)) cid = None
       else (\<exists>new. connections (snd (broadcastLog channel payload g)) cid =
                     Some (c\<lparr>res := (res c)\<lparr>chunks := chunks (res c) @ new\<rparr>,
                             logsSent := logsSent c + length new\<rparr>) \<and>
                   length new = count_list ?subs cid \<and>
                   (\<forall>x\<in>set new. stamped_between (world g)
                      (world (snd (broadcastLog channel payload g))) channel payload x))"
    if c: "connections g cid = Some c" for cid c
  proof (cases "writeThrows (res c)")
    case False
    from fold_deliver_writable [OF c False, of channel payload ?subs 0] False
    show ?thesis unfolding b by simp
  next
    case True
    show ?thesis
    proof (cases "cid \<in> set ?subs")
      case in_subs: True
      with c True
      have "connections (snd (fold (deliver channel payload) ?subs (0, g))) cid = None"
        by (intro fold_deliver_removed) auto
      with True in_subs show ?thesis unfolding b by simp
    next
      case False
      then have "connections (snd (fold (deliver channel payload) ?subs (0, g))) cid = Some c"
        using c by (simp add: fold_deliver_unvisited)
      then have "connections (snd (broadcastLog channel payload g)) cid =
                     Some (c\<lparr>res := (res c)\<lparr>chunks := chunks (res c) @ []\<rparr>,
                             logsSent := logsSent c + length ([] :: string list)\<rparr>) \<and>
                   length ([] :: string list) = count_list ?subs cid \<and>
                   (\<forall>x\<in>set ([] :: string list). stamped_between (world g)
                      (world (snd (broadcastLog channel payload g))) channel payload x)"
        using False unfolding b by (simp add: count_list_absent)
      then have "\<exists>new. connections (snd (broadcastLog channel payload g)) cid =
                     Some (c\<lparr>res := (res c)\<lparr>chunks := chunks (res c) @ new\<rparr>,
                             logsSent := logsSent c + length new\<rparr>) \<and>
                   length new = count_list ?subs cid \<and>
                   (\<forall>x\<in>set new. stamped_between (world g)
                      (world (snd (broadcastLog channel payload g))) channel payload x)"
        by (rule exI)
      with False show ?thesis by simp
    qed
  qed
  have none: "connections (snd (broadcastLog channel payload g)) cid = None"
    if "connections g cid = None" for cid
    unfolding b using that by (intro fold_deliver_removed) simp
  have index: "set (subscribers_of (snd (broadcastLog channel payload g)) ch) =
      set (subscribers_of g ch) -
        {cid \<in> set ?subs. raising g cid \<and> ch \<in> set (channels_of g cid)}" for ch
    unfolding b by (rule fold_deliver_subscribers)
  from count conn none index show ?thesis by blast
qed

lemma raising_subscribe_fields:
  "x_user_id (demo_subscribe\<lparr>channels_query := q, resThrows := True\<rparr>) = None"
  "resThrows (demo_subscribe\<lparr>channels_query := q, resThrows := True\<rparr>) = True"
  "channels_query (demo_subscribe\<lparr>channels_query := q, resThrows := True\<rparr>) = q"
  by (simp_all add: demo_subscribe_def)

lemma raising_requested:
  "requestedChannels (channels_query
      (demo_subscribe\<lparr>channels_query := QStr ''logs:etl:workspace123:workflow456'', resThrows := True\<rparr>)) =
     Inr [''logs:etl:workspace123:workflow456'']"
  by (simp add: requestedChannels_def)

lemma demo_two_world:
  "world demo_two_subscribers = demo_world\<lparr>clockReads := 7, randomReads := 2\<rparr>"
  by (simp add: demo_two_subscribers_def handleLogsSSE_world [OF raising_requested]
      demo_subscribed_world mintConnectionId_def Date_now_def random_suffix_def Let_def)

lemma demo_two_index:
  "logChannels demo_two_subscribers ''logs:etl:workspace123:workflow456'' =
     Some [''user123_1001_abc0'', ''user123_1004_abc1'']"
  by (simp add: demo_two_subscribers_def handleLogsSSE_registered(2) [OF raising_requested]
      raising_subscribe_fields mock_user_None second_connection_id
      demo_channel_allowed subscribe_eq demo_subscribed_index set_add_def)

lemma demo_two_first:
  "\<exists>conn. connections demo_two_subscribers ''user123_1001_abc0'' = Some conn \<and>
     \<not> writeThrows (res conn) \<and>
     chunks (res conn) =
       [handshake [''logs:etl:workspace123:workflow456''] ''user123'' ''user123_1001_abc0'' 1003]"
  using demo_subscribed_connection
  by (simp add: demo_two_subscribers_def handleLogsSSE_registered(3) [OF raising_requested]
      raising_subscribe_fields mock_user_None second_connection_id)

lemma demo_two_second:
  "\<exists>conn. connections demo_two_subscribers ''user123_1004_abc1'' = Some conn \<and>
     writeThrows (res conn) \<and> channels conn = [''logs:etl:workspace123:workflow456'']"
  by (simp add: demo_two_subscribers_def handleLogsSSE_registered(3) [OF raising_requested]
      raising_subscribe_fields mock_user_None second_connection_id demo_channel_allowed)

lemma demo_two_stamp:
  "fst (envelope_stamp (demo_world\<lparr>clockReads := 7, randomReads := 2\<rparr>)) = (1007, ''log-1008-abc2'')"
  by (simp add: envelope_stamp_def Date_now_def random_suffix_def demo_world_def Let_def
      number_string_def digits10_lt digits10_ge base36_digit_def)

theorem delivered_counts_every_writable_subscriber_witness:
  "subscribers_of demo_two_subscribers ''logs:etl:workspace123:workflow456'' =
     [''user123_1001_abc0'', ''user123_1004_abc1''] \<and>
   deliverable demo_two_subscribers ''user123_1001_abc0'' \<and>
   raising demo_two_subscribers ''user123_1004_abc1'' \<and>
   fst (broadcastLog ''logs:etl:workspace123:workflow456'' (logData demo_body) demo_two_subscribers) = 1 \<and>
   connections (snd (broadcastLog ''logs:etl:workspace123:workflow456'' (logData demo_body)
     demo_two_subscribers)) ''user123_1004_abc1'' = None \<and>
   set (subscribers_of (snd (broadcastLog ''logs:etl:workspace123:workflow456'' (logData demo_body)
     demo_two_subscribers)) ''logs:etl:workspace123:workflow456'') = {''user123_1001_abc0''} \<and>
   map_option (\<lambda>c. (drop 1 (chunks (res c)), logsSent c))
     (connections (snd (broadcastLog ''logs:etl:workspace123:workflow456'' (logData demo_body)
        demo_two_subscribers)) ''user123_1001_abc0'') =
     Some ([data_record ''logs:etl:workspace123:workflow456'' (logData demo_body) 1007 ''log-1008-abc2''], 1)"
proof -
  let ?ch = "''logs:etl:workspace123:workflow456''"
  let ?g = demo_two_subscribers
  let ?g' = "snd (broadcastLog ?ch (logData demo_body) ?g)"
  note T = delivered_counts_every_writable_subscriber [of ?ch "logData demo_body" ?g]
  from demo_two_first obtain c0 where
    c0: "connections ?g ''user123_1001_abc0'' = Some c0" "\<not> writeThrows (res c0)"
        "chunks (res c0) = [handshake [?ch] ''user123'' ''user123_1001_abc0'' 1003]"
    by blast
  from demo_two_second obtain c1 where
    c1: "connections ?g ''user123_1004_abc1'' = Some c1" "writeThrows (res c1)"
        "channels c1 = [?ch]"
    by blast
  have subs: "subscribers_of ?g ?ch = [''user123_1001_abc0'', ''user123_1004_abc1'']"
    by (simp add: subscribers_of_def demo_two_index)
  have d0: "deliverable ?g ''user123_1001_abc0''" by (simp add: deliverable_def c0)
  have nd1: "\<not> deliverable ?g ''user123_1004_abc1''" by (simp add: deliverable_def c1)
  have r1: "raising ?g ''user123_1004_abc1''" by (simp add: raising_def c1)
  have nr0: "\<not> raising ?g ''user123_1001_abc0''" by (simp add: raising_def c0)
  have count: "fst (broadcastLog ?ch (logData demo_body) ?g) = 1"
    using T by (simp add: subs d0 nd1)
  have gone: "connections ?g' ''user123_1004_abc1'' = None"
    using T c1 by (simp add: subs)
  have index: "set (subscribers_of ?g' ?ch) = {''user123_1001_abc0''}"
    using T by (auto simp: subs r1 nr0 channels_of_def c1)
  have step1: "deliver ?ch (logData demo_body) ''user123_1001_abc0'' (0, ?g) =
     (1, ?g\<lparr>world := snd (envelope_stamp (world ?g)),
         connections := (connections ?g)(''user123_1001_abc0'' \<mapsto>
           c0\<lparr>res := (res c0)\<lparr>chunks := chunks (res c0) @
                   [data_record ?ch (logData demo_body) 1007 ''log-1008-abc2'']\<rparr>,
               logsSent := logsSent c0 + 1\<rparr>)\<rparr>)"
    using deliver_writes [OF c0(1,2), of ?ch "logData demo_body" 0]
    by (simp add: demo_two_world demo_two_stamp)
  have l0: "logsSent c0 = 0"
    using c0(1)
    by (simp add: demo_two_subscribers_def handleLogsSSE_registered(3) [OF raising_requested]
        raising_subscribe_fields mock_user_None second_connection_id demo_subscribed_def
        handleLogsSSE_registered(3) [OF demo_channel_requested] demo_subscribe_fields
        demo_connection_id [simplified mock_user_None] split: if_splits) auto
  have exact: "map_option (\<lambda>c. (drop 1 (chunks (res c)), logsSent c))
     (connections ?g' ''user123_1001_abc0'') =
     Some ([data_record ?ch (logData demo_body) 1007 ''log-1008-abc2''], 1)"
    using deliver_other [of "''user123_1001_abc0''" "''user123_1004_abc1''" ?ch "logData demo_body"]
    by (simp add: broadcastLog_def demo_two_index step1 c0(3) l0)
  from subs d0 r1 count gone index exact show ?thesis by (intro conjI)
qed

end
